theory Spec2Isabelle
  imports Complex_Main "HOL-Library.AList"
begin

section \<open>Hardware Inventory Scanner: the service (backend/main.py) and the tool (app.py)\<close>

subsection \<open>Values\<close>

text \<open>
  A Python \<^verbatim>\<open>str\<close> is kept as the bytes of its UTF-8 encoding, so a \<open>string\<close> here is a
  text and a character of the text is one byte or a leading byte with its continuation
  bytes. A Python \<^verbatim>\<open>float\<close> is a real number, an infinity or \<^verbatim>\<open>nan\<close>.
\<close>

datatype pyfloat = Finite real | PosInf | NegInf | NaN

text \<open>
  What \<^verbatim>\<open>json.loads\<close> returns: a Python value built from \<^verbatim>\<open>None\<close>, booleans, numbers,
  strings, lists and dicts. A dict is kept as an association list in insertion order.
\<close>

datatype json =
    JNull
  | JBool bool
  | JInt int
  | JFloat pyfloat
  | JStr string
  | JArr "json list"
  | JObj "(string \<times> json) list"

type_synonym pydict = "(string \<times> json) list"

text \<open>\<^verbatim>\<open>d.get(key, default)\<close> on a dict.\<close>

definition dict_get :: "pydict \<Rightarrow> string \<Rightarrow> json \<Rightarrow> json" where
  "dict_get d k dflt = (case map_of d k of None \<Rightarrow> dflt | Some v \<Rightarrow> v)"

text \<open>
  The exceptions the service distinguishes: \<^verbatim>\<open>HTTPException\<close> with its status and detail,
  and any other \<^verbatim>\<open>Exception\<close>. The handlers of \<^verbatim>\<open>process_image\<close> read \<^verbatim>\<open>str(e)\<close> of the
  latter, so there it is described by that text (\<open>string exn\<close>); the export has no handler,
  and there it is described by its class and argument (\<open>lib_error exn\<close>, below).
\<close>

datatype 'a exn =
    HTTPException (status_code: nat) (detail: string)
  | PyException 'a

subsection \<open>Models (main.py, lines 32 to 52)\<close>

record ImageRequest =
  session_id :: string
  image_base64 :: string

record HardwareData =
  capacity :: string
  generation :: string
  brand :: string
  speed :: string
  timestamp :: "string option"

record ProcessResponse =
  success :: bool
  data :: "HardwareData option"
  error :: "string option"
  scan_count :: nat

text \<open>One entry of the module-level dict \<^verbatim>\<open>sessions\<close>.\<close>

record session =
  items :: "pydict list"
  started_at :: string

text \<open>
  The state of the process: the dict \<^verbatim>\<open>sessions\<close>, and the number of attempts made so far
  to reach the hosted model, which lets a retry be seen.
\<close>

record server =
  sessions :: "string \<rightharpoonup> session"
  api_calls :: nat

subsection \<open>The world outside the repository\<close>

text \<open>
  What the request to the hosted model can raise, each with its \<^verbatim>\<open>str(e)\<close>: a rejected
  key, a network failure, or any other exception raised before the content is read.
\<close>

datatype api_error =
    AuthenticationError string
  | APIConnectionError string
  | OtherError string

fun str_of :: "api_error \<Rightarrow> string" where
  "str_of (AuthenticationError m) = m"
| "str_of (APIConnectionError m) = m"
| "str_of (OtherError m) = m"

text \<open>
  What one attempt of the client to reach the hosted model meets: the content of the first
  choice of the answer; an error that the client raises at once (a rejected key, a refused
  request, or any other exception before the content is read); or an error after which the
  client tries again while it has retries left (no connection, a timeout, the statuses
  408, 409, 429 and 500 or more).
\<close>

datatype outcome =
    Answer string
  | Refused api_error
  | Dropped api_error

fun dropped :: "outcome \<Rightarrow> bool" where
  "dropped (Dropped e) = True"
| "dropped (Refused e) = False"
| "dropped (Answer content) = False"

text \<open>
  Everything an operation reads from outside: the environment variable, the hosted model
  (from the key, the base64 image and the number of the attempt, from 0, to what the
  attempt meets), the libraries \<^verbatim>\<open>json\<close> (the parsed value, or the text of the decoding
  error), \<^verbatim>\<open>base64\<close> and \<^verbatim>\<open>pydantic\<close> (the validation of a \<^verbatim>\<open>str\<close> field, and the text of a validation error
  for the fields that failed), and the clock in the three formats the service asks for
  (\<^verbatim>\<open>isoformat()\<close>, \<^verbatim>\<open>%Y-%m-%d %H:%M:%S\<close> and \<^verbatim>\<open>%Y%m%d_%H%M%S\<close>).
\<close>

record env =
  GROQ_API_KEY :: "string option"
  attempt :: "string \<Rightarrow> string \<Rightarrow> nat \<Rightarrow> outcome"
  json_loads :: "string \<Rightarrow> string + json"
  b64encode :: "string \<Rightarrow> string"
  str_type :: "json \<Rightarrow> string option"
  validation_text :: "string list \<Rightarrow> string"
  now_isoformat :: string
  now_strftime :: string
  now_session_id :: string

subsection \<open>The call to the hosted model\<close>

text \<open>
  \<^verbatim>\<open>client.chat.completions.create\<close> on the client that \<^verbatim>\<open>Groq(api_key=...)\<close> builds (main.py
  line 61, app.py line 127). Neither file sets \<^verbatim>\<open>max_retries\<close>, so the client keeps the
  library's default of 2: after an attempt that is dropped it tries again, up to two more
  times, and raises the last error. The result comes with the number of attempts made.
\<close>

definition max_retries :: nat where
  "max_retries = 2"

fun client_create :: "env \<Rightarrow> string \<Rightarrow> string \<Rightarrow> nat \<Rightarrow> nat \<Rightarrow> (api_error + string) \<times> nat" where
  "client_create E key img 0 k =
     (case attempt E key img k of
        Answer content \<Rightarrow> (Inr content, Suc k)
      | Refused e \<Rightarrow> (Inl e, Suc k)
      | Dropped e \<Rightarrow> (Inl e, Suc k))"
| "client_create E key img (Suc retries) k =
     (case attempt E key img k of
        Answer content \<Rightarrow> (Inr content, Suc k)
      | Refused e \<Rightarrow> (Inl e, Suc k)
      | Dropped e \<Rightarrow> client_create E key img retries (Suc k))"

definition create :: "env \<Rightarrow> string \<Rightarrow> string \<Rightarrow> (api_error + string) \<times> nat" where
  "create E key img = client_create E key img max_retries 0"

text \<open>
  Lines 72 to 91 of main.py and 143 to 162 of app.py: one call of \<^verbatim>\<open>create\<close>, then
  \<^verbatim>\<open>json.loads\<close> of the content; any exception of either is caught. The result is the
  exception's text or the parsed value, with the counter of attempts, which goes up by
  those the client made.
\<close>

definition vision_call :: "env \<Rightarrow> string \<Rightarrow> string \<Rightarrow> nat \<Rightarrow> (string + json) \<times> nat" where
  "vision_call E key img n =
     (case create E key img of
        (Inl e, k) \<Rightarrow> (Inl (str_of e), n + k)
      | (Inr content, k) \<Rightarrow> (json_loads E content, n + k))"

definition extract_hardware_info :: "env \<Rightarrow> string \<Rightarrow> nat \<Rightarrow> (string exn + json) \<times> nat" where
  "extract_hardware_info E img n =
     (case GROQ_API_KEY E of
        None \<Rightarrow> (Inl (HTTPException 500 ''GROQ_API_KEY not configured''), n)
      | Some key \<Rightarrow>
          if key = [] then (Inl (HTTPException 500 ''GROQ_API_KEY not configured''), n)
          else (case vision_call E key img n of
                  (Inl m, n') \<Rightarrow> (Inl (HTTPException 500 m), n')
                | (Inr j, n') \<Rightarrow> (Inr j, n')))"

text \<open>
  app.py: the key is the secret or the environment variable, or the empty string; the
  uploaded file's bytes are encoded first; a failure becomes the dict \<^verbatim>\<open>{"error": str(e)}\<close>.
\<close>

definition process_vision_data :: "env \<Rightarrow> string \<Rightarrow> nat \<Rightarrow> json \<times> nat" where
  "process_vision_data E image_file n =
     (let key = (case GROQ_API_KEY E of None \<Rightarrow> [] | Some k \<Rightarrow> k);
          base64_image = b64encode E image_file
      in case vision_call E key base64_image n of
           (Inl m, n') \<Rightarrow> (JObj [(''error'', JStr m)], n')
         | (Inr j, n') \<Rightarrow> (j, n'))"

subsection \<open>The record built from the model's dict\<close>

text \<open>
  \<^verbatim>\<open>HardwareData(**result)\<close>: a field the dict lacks takes the class's default; a field it has
  is validated as a \<^verbatim>\<open>str\<close>; keys that are no field are ignored. \<^verbatim>\<open>timestamp\<close> is optional,
  so \<^verbatim>\<open>None\<close> passes.
\<close>

definition str_field :: "env \<Rightarrow> pydict \<Rightarrow> string \<Rightarrow> string option" where
  "str_field E d k = (case map_of d k of None \<Rightarrow> Some ''N/A'' | Some v \<Rightarrow> str_type E v)"

definition opt_str_field :: "env \<Rightarrow> pydict \<Rightarrow> string \<Rightarrow> string option option" where
  "opt_str_field E d k =
     (case map_of d k of
        None \<Rightarrow> Some None
      | Some JNull \<Rightarrow> Some None
      | Some v \<Rightarrow> (case str_type E v of None \<Rightarrow> None | Some s \<Rightarrow> Some (Some s)))"

definition failing_fields :: "env \<Rightarrow> pydict \<Rightarrow> string list" where
  "failing_fields E d =
     filter (\<lambda>k. str_field E d k = None) [''capacity'', ''generation'', ''brand'', ''speed'']
     @ (if opt_str_field E d ''timestamp'' = None then [''timestamp''] else [])"

definition HardwareData_init :: "env \<Rightarrow> pydict \<Rightarrow> string exn + HardwareData" where
  "HardwareData_init E d =
     (case (str_field E d ''capacity'', str_field E d ''generation'', str_field E d ''brand'',
            str_field E d ''speed'', opt_str_field E d ''timestamp'') of
        (Some c, Some g, Some b, Some s, Some t) \<Rightarrow>
          Inr \<lparr>capacity = c, generation = g, brand = b, speed = s, timestamp = t\<rparr>
      | _ \<Rightarrow> Inl (PyException (validation_text E (failing_fields E d))))"

subsection \<open>The endpoints\<close>

text \<open>The two handlers of \<^verbatim>\<open>process_image\<close> (lines 133 to 136).\<close>

fun failure :: "string exn \<Rightarrow> ProcessResponse" where
  "failure (HTTPException c d) = \<lparr>success = False, data = None, error = Some d, scan_count = 0\<rparr>"
| "failure (PyException m) = \<lparr>success = False, data = None, error = Some m, scan_count = 0\<rparr>"

text \<open>\<^verbatim>\<open>start_session\<close> (lines 98 to 106) stores a fresh session under the clock's identifier.\<close>

definition start_session :: "env \<Rightarrow> server \<Rightarrow> pydict \<times> server" where
  "start_session E st =
     (let sid = now_session_id E
      in ([(''session_id'', JStr sid), (''message'', JStr ''Session started'')],
          st\<lparr>sessions := (sessions st)(sid \<mapsto> \<lparr>items = [], started_at = now_isoformat E\<rparr>)\<rparr>))"

text \<open>Lines 111 to 116: a session is created only under an identifier that has none.\<close>

definition auto_create :: "env \<Rightarrow> string \<Rightarrow> (string \<rightharpoonup> session) \<Rightarrow> (string \<rightharpoonup> session)" where
  "auto_create E sid ss =
     (case ss sid of
        None \<Rightarrow> ss(sid \<mapsto> \<lparr>items = [], started_at = now_isoformat E\<rparr>)
      | Some _ \<Rightarrow> ss)"

text \<open>
  Line 123, \<^verbatim>\<open>result["timestamp"] = ...\<close>: only a dict takes the assignment; on any other
  value Python raises \<^verbatim>\<open>TypeError\<close>.
\<close>

fun setitem_timestamp :: "json \<Rightarrow> string \<Rightarrow> string exn + pydict" where
  "setitem_timestamp (JObj d) ts = Inr (AList.update ''timestamp'' (JStr ts) d)"
| "setitem_timestamp (JArr _) ts =
     Inl (PyException ''list indices must be integers or slices, not str'')"
| "setitem_timestamp (JStr _) ts =
     Inl (PyException (CHR 0x27 # ''str'' @ CHR 0x27 # '' object does not support item assignment''))"
| "setitem_timestamp (JInt _) ts =
     Inl (PyException (CHR 0x27 # ''int'' @ CHR 0x27 # '' object does not support item assignment''))"
| "setitem_timestamp (JFloat _) ts =
     Inl (PyException (CHR 0x27 # ''float'' @ CHR 0x27 # '' object does not support item assignment''))"
| "setitem_timestamp (JBool _) ts =
     Inl (PyException (CHR 0x27 # ''bool'' @ CHR 0x27 # '' object does not support item assignment''))"
| "setitem_timestamp JNull ts =
     Inl (PyException (CHR 0x27 # ''NoneType'' @ CHR 0x27 # '' object does not support item assignment''))"

text \<open>
  Line 126, \<^verbatim>\<open>sessions[sid]["items"].append(result)\<close>; a missing key would raise
  \<^verbatim>\<open>KeyError\<close>, whose text is the key's \<^verbatim>\<open>repr\<close> (the key between quotes, for a key that
  needs no escape). After lines 111 to 116 the key is never missing.
\<close>

definition append_item ::
  "string \<Rightarrow> pydict \<Rightarrow> (string \<rightharpoonup> session) \<Rightarrow> string exn + (string \<rightharpoonup> session)" where
  "append_item sid d ss =
     (case ss sid of
        None \<Rightarrow> Inl (PyException (CHR 0x27 # sid @ [CHR 0x27]))
      | Some s \<Rightarrow> Inr (ss(sid \<mapsto> s\<lparr>items := items s @ [d]\<rparr>)))"

definition scan_count_of :: "string \<Rightarrow> (string \<rightharpoonup> session) \<Rightarrow> nat" where
  "scan_count_of sid ss = (case ss sid of None \<Rightarrow> 0 | Some s \<Rightarrow> length (items s))"

definition process_image :: "env \<Rightarrow> ImageRequest \<Rightarrow> server \<Rightarrow> ProcessResponse \<times> server" where
  "process_image E request st =
     (let sid = session_id request;
          ss1 = auto_create E sid (sessions st)
      in case extract_hardware_info E (image_base64 request) (api_calls st) of
           (Inl e, n) \<Rightarrow> (failure e, \<lparr>sessions = ss1, api_calls = n\<rparr>)
         | (Inr result, n) \<Rightarrow>
             (case setitem_timestamp result (now_strftime E) of
                Inl e \<Rightarrow> (failure e, \<lparr>sessions = ss1, api_calls = n\<rparr>)
              | Inr d \<Rightarrow>
                  (case append_item sid d ss1 of
                     Inl e \<Rightarrow> (failure e, \<lparr>sessions = ss1, api_calls = n\<rparr>)
                   | Inr ss2 \<Rightarrow>
                       (case HardwareData_init E d of
                          Inl e \<Rightarrow> (failure e, \<lparr>sessions = ss2, api_calls = n\<rparr>)
                        | Inr hw \<Rightarrow>
                            (\<lparr>success = True, data = Some hw, error = None,
                              scan_count = scan_count_of sid ss2\<rparr>,
                             \<lparr>sessions = ss2, api_calls = n\<rparr>)))))"

text \<open>\<^verbatim>\<open>get_session\<close> (lines 138 to 150) returns a dict of four entries.\<close>

record session_view =
  view_session_id :: string
  view_items :: "pydict list"
  view_scan_count :: nat
  view_started_at :: string

definition get_session :: "string \<Rightarrow> server \<Rightarrow> (string exn + session_view) \<times> server" where
  "get_session sid st =
     (case sessions st sid of
        None \<Rightarrow> (Inl (HTTPException 404 ''Session not found''), st)
      | Some s \<Rightarrow>
          (Inr \<lparr>view_session_id = sid, view_items = items s,
                view_scan_count = length (items s), view_started_at = started_at s\<rparr>, st))"

text \<open>\<^verbatim>\<open>end_session\<close> (lines 210 to 215) returns a dict of two entries.\<close>

definition end_session :: "string \<Rightarrow> server \<Rightarrow> pydict \<times> server" where
  "end_session sid st =
     ([(''message'', JStr ''Session ended''), (''session_id'', JStr sid)],
      (case sessions st sid of
         None \<Rightarrow> st
       | Some _ \<Rightarrow> st\<lparr>sessions := (sessions st)(sid := None)\<rparr>))"

subsection \<open>The spreadsheet\<close>

text \<open>
  The part of \<^verbatim>\<open>openpyxl\<close> the export uses. A worksheet holds the cells that were created,
  keyed by row and column (both from 1), and the cells whose font was made bold.
  \<^verbatim>\<open>Workbook()\<close> has one sheet, which is the active one.
\<close>

record worksheet =
  title :: string
  cells :: "((nat \<times> nat) \<times> json) list"
  bold_cells :: "(nat \<times> nat) list"

record workbook =
  sheets :: "worksheet list"

text \<open>
  What the export can raise outside its own two \<^verbatim>\<open>HTTPException\<close>s: a cell refuses a value
  (\<^verbatim>\<open>ValueError\<close>, with the value) or a text (\<^verbatim>\<open>IllegalCharacterError\<close>, with the text), or
  the response refuses a header (\<^verbatim>\<open>UnicodeEncodeError\<close>, with the header's value).
\<close>

datatype lib_error =
    ValueError json
  | IllegalCharacterError string
  | UnicodeEncodeError string

definition and_then :: "'e + 'a \<Rightarrow> ('a \<Rightarrow> 'e + 'b) \<Rightarrow> 'e + 'b" where
  "and_then x f = (case x of Inl e \<Rightarrow> Inl e | Inr a \<Rightarrow> f a)"

text \<open>
  The first \<open>n\<close> characters of a text (\<^verbatim>\<open>value[:n]\<close>), and the characters a cell refuses:
  the control characters other than tab, line feed and carriage return.
\<close>

definition continuation :: "char \<Rightarrow> bool" where
  "continuation c = (128 \<le> (of_char c :: nat) \<and> (of_char c :: nat) < 192)"

fun take_chars :: "nat \<Rightarrow> string \<Rightarrow> string" where
  "take_chars n [] = []"
| "take_chars n (c # cs) =
     (if continuation c then c # take_chars n cs
      else if n = 0 then []
      else c # take_chars (n - 1) cs)"

definition illegal_character :: "char \<Rightarrow> bool" where
  "illegal_character c =
     ((of_char c :: nat) \<le> 8 \<or> (of_char c :: nat) = 11 \<or> (of_char c :: nat) = 12
      \<or> (14 \<le> (of_char c :: nat) \<and> (of_char c :: nat) \<le> 31))"

fun has_illegal :: "string \<Rightarrow> bool" where
  "has_illegal [] = False"
| "has_illegal (c # cs) = (illegal_character c \<or> has_illegal cs)"

text \<open>
  \<^verbatim>\<open>cell.value = value\<close>: numbers, booleans and \<^verbatim>\<open>None\<close> are kept; a text is cut to 32767
  characters and refused if it then has an illegal character; a list or a dict is refused.
\<close>

fun bind_value :: "json \<Rightarrow> lib_error + json" where
  "bind_value (JStr s) =
     (let s' = take_chars 32767 s
      in if has_illegal s' then Inl (IllegalCharacterError s') else Inr (JStr s'))"
| "bind_value (JArr xs) = Inl (ValueError (JArr xs))"
| "bind_value (JObj d) = Inl (ValueError (JObj d))"
| "bind_value JNull = Inr JNull"
| "bind_value (JBool b) = Inr (JBool b)"
| "bind_value (JInt i) = Inr (JInt i)"
| "bind_value (JFloat x) = Inr (JFloat x)"

text \<open>
  \<^verbatim>\<open>ws.cell(row, column)\<close> creates the cell, empty, if the sheet has none there;
  \<^verbatim>\<open>ws.cell(row, column, value)\<close> then sets its value unless the value is \<^verbatim>\<open>None\<close>.
\<close>

definition get_cell :: "nat \<Rightarrow> nat \<Rightarrow> worksheet \<Rightarrow> worksheet" where
  "get_cell r c ws =
     (case map_of (cells ws) (r, c) of
        None \<Rightarrow> ws\<lparr>cells := AList.update (r, c) JNull (cells ws)\<rparr>
      | Some _ \<Rightarrow> ws)"

definition ws_cell :: "nat \<Rightarrow> nat \<Rightarrow> json \<Rightarrow> worksheet \<Rightarrow> lib_error + worksheet" where
  "ws_cell r c v ws =
     (let ws' = get_cell r c ws
      in if v = JNull then Inr ws'
         else (case bind_value v of
                 Inl e \<Rightarrow> Inl e
               | Inr v' \<Rightarrow> Inr (ws'\<lparr>cells := AList.update (r, c) v' (cells ws')\<rparr>)))"

text \<open>\<^verbatim>\<open>ws.cell(row, column).font = ws.cell(row, column).font.copy(bold=True)\<close>.\<close>

definition set_bold :: "nat \<Rightarrow> nat \<Rightarrow> worksheet \<Rightarrow> worksheet" where
  "set_bold r c ws =
     (let ws' = get_cell r c (get_cell r c ws)
      in ws'\<lparr>bold_cells := List.insert (r, c) (bold_cells ws')\<rparr>)"

text \<open>\<^verbatim>\<open>ws.max_row\<close> and \<^verbatim>\<open>ws.max_column\<close>: 1 on a sheet with no cell.\<close>

definition max_row :: "worksheet \<Rightarrow> nat" where
  "max_row ws = (case map (fst \<circ> fst) (cells ws) of [] \<Rightarrow> 1 | r # rs \<Rightarrow> fold max rs r)"

definition max_column :: "worksheet \<Rightarrow> nat" where
  "max_column ws = (case map (snd \<circ> fst) (cells ws) of [] \<Rightarrow> 1 | c # cs \<Rightarrow> fold max cs c)"

text \<open>
  \<^verbatim>\<open>ws.values\<close>: no row on a sheet with no cell; otherwise the rows 1 to \<^verbatim>\<open>max_row\<close>, each
  the values of the columns 1 to \<^verbatim>\<open>max_column\<close>, \<^verbatim>\<open>None\<close> where no cell was created.
\<close>

definition cell_value :: "worksheet \<Rightarrow> nat \<Rightarrow> nat \<Rightarrow> json" where
  "cell_value ws r c = (case map_of (cells ws) (r, c) of None \<Rightarrow> JNull | Some v \<Rightarrow> v)"

definition sheet_rows :: "worksheet \<Rightarrow> json list list" where
  "sheet_rows ws =
     (if cells ws = [] then []
      else map (\<lambda>r. map (\<lambda>c. cell_value ws r c) [1..<Suc (max_column ws)])
             [1..<Suc (max_row ws)])"

subsection \<open>Export (main.py, lines 152 to 208)\<close>

definition headers :: "string list" where
  "headers = [''#'', ''Brand'', ''Capacity'', ''Generation'', ''Speed (MHz)'', ''Scanned At'']"

text \<open>The loop of lines 171 to 173, \<^verbatim>\<open>col\<close> counting from its first argument.\<close>

fun write_headers :: "nat \<Rightarrow> string list \<Rightarrow> worksheet \<Rightarrow> lib_error + worksheet" where
  "write_headers col [] ws = Inr ws"
| "write_headers col (header # rest) ws =
     and_then (ws_cell 1 col (JStr header) ws)
       (\<lambda>ws. write_headers (Suc col) rest (set_bold 1 col ws))"

text \<open>The body of the loop of lines 176 to 182, and the loop, \<^verbatim>\<open>idx\<close> counting likewise.\<close>

definition write_item :: "nat \<Rightarrow> pydict \<Rightarrow> worksheet \<Rightarrow> lib_error + worksheet" where
  "write_item idx item ws =
     and_then (ws_cell (idx + 1) 1 (JInt (int idx)) ws) (\<lambda>ws.
     and_then (ws_cell (idx + 1) 2 (dict_get item ''brand'' (JStr ''N/A'')) ws) (\<lambda>ws.
     and_then (ws_cell (idx + 1) 3 (dict_get item ''capacity'' (JStr ''N/A'')) ws) (\<lambda>ws.
     and_then (ws_cell (idx + 1) 4 (dict_get item ''generation'' (JStr ''N/A'')) ws) (\<lambda>ws.
     and_then (ws_cell (idx + 1) 5 (dict_get item ''speed'' (JStr ''N/A'')) ws) (\<lambda>ws.
     ws_cell (idx + 1) 6 (dict_get item ''timestamp'' (JStr ''N/A'')) ws)))))"

fun write_items :: "nat \<Rightarrow> pydict list \<Rightarrow> worksheet \<Rightarrow> lib_error + worksheet" where
  "write_items idx [] ws = Inr ws"
| "write_items idx (item # rest) ws =
     and_then (write_item idx item ws) (\<lambda>ws. write_items (Suc idx) rest ws)"

text \<open>
  The workbook of lines 165 to 182. The loop of lines 185 to 195 reads the cells and sets
  column widths, inside a \<^verbatim>\<open>try\<close> of its own; widths are not part of this model, and saving
  the workbook to the buffer (lines 198 to 200) is taken to succeed.
\<close>

definition build_workbook :: "pydict list \<Rightarrow> lib_error + workbook" where
  "build_workbook its =
     (let ws = \<lparr>title = ''Sheet'', cells = [], bold_cells = []\<rparr>;
          ws = ws\<lparr>title := ''Hardware Inventory''\<rparr>
      in and_then (write_headers 1 headers ws) (\<lambda>ws.
         and_then (write_items 1 its ws) (\<lambda>ws.
         Inr \<lparr>sheets = [ws]\<rparr>)))"

text \<open>
  \<^verbatim>\<open>StreamingResponse(..., headers=...)\<close> encodes each header's value as Latin-1 when it is
  built, which fails on a character above 255: in UTF-8, one whose leading byte is above
  \<open>0xC3\<close>.
\<close>

fun latin1 :: "string \<Rightarrow> bool" where
  "latin1 [] = True"
| "latin1 (c # cs) = ((of_char c :: nat) < 196 \<and> latin1 cs)"

record StreamingResponse =
  body :: workbook
  media_type :: string
  content_disposition :: string

definition export_session ::
  "string \<Rightarrow> server \<Rightarrow> (lib_error exn + StreamingResponse) \<times> server" where
  "export_session sid st =
     (case sessions st sid of
        None \<Rightarrow> (Inl (HTTPException 404 ''Session not found''), st)
      | Some s \<Rightarrow>
          if items s = [] then (Inl (HTTPException 400 ''No items to export''), st)
          else
            (case build_workbook (items s) of
               Inl e \<Rightarrow> (Inl (PyException e), st)
             | Inr wb \<Rightarrow>
                 (let filename = ''hardware_inventory_'' @ sid @ ''.xlsx'';
                      disposition = ''attachment; filename='' @ filename
                  in if latin1 disposition
                     then (Inr \<lparr>body = wb,
                                media_type =
                                  ''application/vnd.openxmlformats-officedocument.spreadsheetml.sheet'',
                                content_disposition = disposition\<rparr>, st)
                     else (Inl (PyException (UnicodeEncodeError disposition)), st))))"

subsection \<open>Notions used to state the properties\<close>

text \<open>The cells of a sheet as a map.\<close>

definition cellmap :: "worksheet \<Rightarrow> (nat \<times> nat) \<rightharpoonup> json" where
  "cellmap ws = map_of (cells ws)"

text \<open>
  The six values the export gives to the cells of an item's row, and the rows of cells that
  come of a list of values, or of the items from number \<open>idx\<close> on: the values as the cells
  keep them, or the first refusal.
\<close>

definition item_values :: "nat \<Rightarrow> pydict \<Rightarrow> json list" where
  "item_values idx item =
     [JInt (int idx),
      dict_get item ''brand'' (JStr ''N/A''),
      dict_get item ''capacity'' (JStr ''N/A''),
      dict_get item ''generation'' (JStr ''N/A''),
      dict_get item ''speed'' (JStr ''N/A''),
      dict_get item ''timestamp'' (JStr ''N/A'')]"

fun bind_all :: "json list \<Rightarrow> lib_error + json list" where
  "bind_all [] = Inr []"
| "bind_all (v # vs) =
     and_then (bind_value v) (\<lambda>v'. and_then (bind_all vs) (\<lambda>vs'. Inr (v' # vs')))"

fun bind_items :: "nat \<Rightarrow> pydict list \<Rightarrow> lib_error + json list list" where
  "bind_items idx [] = Inr []"
| "bind_items idx (item # rest) =
     and_then (bind_all (item_values idx item)) (\<lambda>row.
     and_then (bind_items (Suc idx) rest) (\<lambda>rows. Inr (row # rows)))"

text \<open>A row of cells written from column \<open>c\<close> on, as the body of the item loop writes it.\<close>

fun write_row :: "nat \<Rightarrow> nat \<Rightarrow> json list \<Rightarrow> worksheet \<Rightarrow> lib_error + worksheet" where
  "write_row r c [] ws = Inr ws"
| "write_row r c (v # vs) ws = and_then (ws_cell r c v ws) (write_row r (Suc c) vs)"

text \<open>
  The dict a submission appends to its session, if it appends one: the model's answer, when
  it is a dict, with the time of the scan.
\<close>

definition stored_record :: "env \<Rightarrow> string \<Rightarrow> pydict option" where
  "stored_record E img =
     (case fst (extract_hardware_info E img 0) of
        Inl _ \<Rightarrow> None
      | Inr result \<Rightarrow>
          (case setitem_timestamp result (now_strftime E) of Inl _ \<Rightarrow> None | Inr d \<Rightarrow> Some d))"

text \<open>The session a submission works on: the stored one, or the one it creates.\<close>

definition target :: "env \<Rightarrow> string \<Rightarrow> (string \<rightharpoonup> session) \<Rightarrow> session" where
  "target E sid ss =
     (case ss sid of None \<Rightarrow> \<lparr>items = [], started_at = now_isoformat E\<rparr> | Some s \<Rightarrow> s)"

text \<open>The scan records under an identifier; none where there is no session.\<close>

definition session_items :: "server \<Rightarrow> string \<Rightarrow> pydict list" where
  "session_items st sid = (case sessions st sid of None \<Rightarrow> [] | Some s \<Rightarrow> items s)"

text \<open>
  A run of submissions, each with the world it meets, and the record one of them appends to
  the session \<open>sid\<close>.
\<close>

fun submit_all :: "(env \<times> ImageRequest) list \<Rightarrow> server \<Rightarrow> server" where
  "submit_all [] st = st"
| "submit_all ((E, r) # rest) st = submit_all rest (snd (process_image E r st))"

definition stored_by :: "string \<Rightarrow> env \<times> ImageRequest \<Rightarrow> pydict option" where
  "stored_by sid x =
     (if session_id (snd x) = sid then stored_record (fst x) (image_base64 (snd x)) else None)"

subsection \<open>A concrete world and a concrete store\<close>

text \<open>
  A \<^verbatim>\<open>str\<close> field that accepts strings only; a hosted model that knows one key and five
  images, answers the third with prose, the fourth with a list for the brand and the fifth
  with a bell character in the brand, and cannot be reached for any other image; the
  parser on those answers; a store with two sessions, one of them empty.
\<close>

definition lax_str :: "json \<Rightarrow> string option" where
  "lax_str v = (case v of JStr s \<Rightarrow> Some s | _ \<Rightarrow> None)"

definition demo_loads :: "string \<Rightarrow> string + json" where
  \<open>demo_loads content =
     (if content = ''{}'' then Inr (JObj [])
      else if content = ''{"capacity": "8GB"}'' then Inr (JObj [(''capacity'', JStr ''8GB'')])
      else if content = ''{"brand": ["Kingston", "HyperX"]}''
        then Inr (JObj [(''brand'', JArr [JStr ''Kingston'', JStr ''HyperX''])])
      else if content = ''{"brand": "King'' @ CHR 0x5C # ''u0007ston"}''
        then Inr (JObj [(''brand'', JStr (''King'' @ CHR 0x07 # ''ston''))])
      else Inl ''Expecting value: line 1 column 1 (char 0)'')\<close>

definition demo_attempt :: "string \<Rightarrow> string \<Rightarrow> nat \<Rightarrow> outcome" where
  \<open>demo_attempt key img k =
     (if key \<noteq> ''gsk_live'' then Refused (AuthenticationError ''Error code: 401'')
      else if img = ''QQ=='' then Answer ''{"capacity": "8GB"}''
      else if img = ''Qg=='' then Answer ''{}''
      else if img = ''Qw=='' then Answer ''I cannot read this label''
      else if img = ''RQ=='' then Answer ''{"brand": ["Kingston", "HyperX"]}''
      else if img = ''Rg=='' then Answer (''{"brand": "King'' @ CHR 0x5C # ''u0007ston"}'')
      else Dropped (APIConnectionError ''Connection error.''))\<close>

definition demo_env :: "string \<Rightarrow> env" where
  "demo_env ts =
     \<lparr>GROQ_API_KEY = Some ''gsk_live'', attempt = demo_attempt, json_loads = demo_loads,
      b64encode = (\<lambda>bytes. if bytes = ''A'' then ''QQ=='' else if bytes = ''B'' then ''Qg==''
                     else if bytes = ''C'' then ''Qw=='' else ''RA==''),
      str_type = lax_str, validation_text = concat,
      now_isoformat = ''2026-01-05T09:00:00.000000'', now_strftime = ts,
      now_session_id = ''20260105_090000''\<rparr>"

definition demo_session :: session where
  "demo_session =
     \<lparr>items = [[(''brand'', JStr ''Kingston''), (''timestamp'', JStr ''2026-01-05 09:00:01'')],
               [(''capacity'', JStr ''16GB''), (''timestamp'', JStr ''2026-01-05 09:00:02'')]],
      started_at = ''2026-01-05T09:00:00.000000''\<rparr>"

definition demo_server :: server where
  "demo_server =
     \<lparr>sessions = [''s1'' \<mapsto> demo_session,
                  ''s0'' \<mapsto> \<lparr>items = [], started_at = ''2026-01-05T08:00:00.000000''\<rparr>],
      api_calls = 2\<rparr>"

definition empty_server :: server where
  "empty_server = \<lparr>sessions = Map.empty, api_calls = 0\<rparr>"

text \<open>
  Four submissions: two to the first session that store a record, one to it that fails,
  and one to the other session; and the first session after them.
\<close>

definition demo_subs :: "(env \<times> ImageRequest) list" where
  "demo_subs =
     [(demo_env ''2026-01-05 09:00:03'', \<lparr>session_id = ''s1'', image_base64 = ''QQ==''\<rparr>),
      (demo_env ''2026-01-05 09:00:04'', \<lparr>session_id = ''s0'', image_base64 = ''Qg==''\<rparr>),
      (demo_env ''2026-01-05 09:00:05'', \<lparr>session_id = ''s1'', image_base64 = ''RA==''\<rparr>),
      (demo_env ''2026-01-05 09:00:06'', \<lparr>session_id = ''s1'', image_base64 = ''Qg==''\<rparr>)]"

definition demo_session_after :: session where
  "demo_session_after =
     \<lparr>items = [[(''brand'', JStr ''Kingston''), (''timestamp'', JStr ''2026-01-05 09:00:01'')],
               [(''capacity'', JStr ''16GB''), (''timestamp'', JStr ''2026-01-05 09:00:02'')],
               [(''capacity'', JStr ''8GB''), (''timestamp'', JStr ''2026-01-05 09:00:03'')],
               [(''timestamp'', JStr ''2026-01-05 09:00:06'')]],
      started_at = ''2026-01-05T09:00:00.000000''\<rparr>"

text \<open>
  Three submissions to a new session, the second answered with a list for the brand; and
  an identifier with a character outside Latin-1 (\<open>U+65E5\<close>).
\<close>

definition mixed_subs :: "(env \<times> ImageRequest) list" where
  "mixed_subs =
     [(demo_env ''2026-01-05 09:00:03'', \<lparr>session_id = ''s4'', image_base64 = ''QQ==''\<rparr>),
      (demo_env ''2026-01-05 09:00:04'', \<lparr>session_id = ''s4'', image_base64 = ''RQ==''\<rparr>),
      (demo_env ''2026-01-05 09:00:05'', \<lparr>session_id = ''s4'', image_base64 = ''Qg==''\<rparr>)]"

definition wide_id :: string where
  "wide_id = [CHR 0xE6, CHR 0x97, CHR 0xA5]"

section \<open>Properties\<close>

subsection \<open>The client's attempts\<close>

text \<open>The client makes one, two or three attempts.\<close>

lemma create_unrolled:
  "create E key img =
     (case attempt E key img 0 of
        Answer c \<Rightarrow> (Inr c, 1)
      | Refused e \<Rightarrow> (Inl e, 1)
      | Dropped _ \<Rightarrow>
          (case attempt E key img 1 of
             Answer c \<Rightarrow> (Inr c, 2)
           | Refused e \<Rightarrow> (Inl e, 2)
           | Dropped _ \<Rightarrow>
               (case attempt E key img 2 of
                  Answer c \<Rightarrow> (Inr c, 3)
                | Refused e \<Rightarrow> (Inl e, 3)
                | Dropped e \<Rightarrow> (Inl e, 3))))"
  by (simp add: create_def max_retries_def numeral_2_eq_2 numeral_3_eq_3 split: outcome.splits)

lemma demo_env_fields:
  "GROQ_API_KEY (demo_env ts) = Some ''gsk_live''"
  "attempt (demo_env ts) = demo_attempt"
  "json_loads (demo_env ts) = demo_loads"
  "str_type (demo_env ts) = lax_str"
  "validation_text (demo_env ts) = concat"
  "now_isoformat (demo_env ts) = ''2026-01-05T09:00:00.000000''"
  "now_strftime (demo_env ts) = ts"
  by (simp_all add: demo_env_def)

lemmas demo_defs =
  demo_env_fields create_unrolled demo_attempt_def demo_loads_def lax_str_def demo_server_def
  demo_session_def

lemmas code_defs =
  process_image_def extract_hardware_info_def vision_call_def auto_create_def append_item_def
  HardwareData_init_def str_field_def opt_str_field_def scan_count_of_def failing_fields_def

lemma create_attempts:
  "1 \<le> snd (create E key img)" "snd (create E key img) \<le> 3"
  "\<not> dropped (attempt E key img 0) \<Longrightarrow> snd (create E key img) = 1"
  "dropped (attempt E key img 0) \<Longrightarrow> dropped (attempt E key img 1) \<Longrightarrow>
   dropped (attempt E key img 2) \<Longrightarrow> snd (create E key img) = 3"
  by (auto simp: create_unrolled split: outcome.splits)

lemma demo_create:
  "create (demo_env ts) ''gsk_old'' img = (Inl (AuthenticationError ''Error code: 401''), 1)"
  "create (demo_env ts) ''gsk_live'' ''RA=='' = (Inl (APIConnectionError ''Connection error.''), 3)"
  "create (demo_env ts) ''gsk_live'' ''Qw=='' = (Inr ''I cannot read this label'', 1)"
  by (simp_all add: create_unrolled demo_env_fields demo_attempt_def)

lemma demo_b64:
  "b64encode (demo_env ts) ''A'' = ''QQ==''" "b64encode (demo_env ts) ''C'' = ''Qw==''"
  "b64encode (demo_env ts) ''D'' = ''RA==''"
  by (simp_all add: demo_env_def)

subsection \<open>The cells the export writes\<close>

lemma and_then_simps:
  "and_then (Inl e) f = Inl e" "and_then (Inr a) f = f a"
  by (simp_all add: and_then_def)

lemma cellmap_get_cell:
  "cellmap (get_cell r c ws) =
     (cellmap ws)((r, c) \<mapsto> (case cellmap ws (r, c) of None \<Rightarrow> JNull | Some old \<Rightarrow> old))"
  by (auto simp: cellmap_def get_cell_def update_conv' split: option.splits)

lemma cellmap_set_bold: "cellmap ws (r, c) \<noteq> None \<Longrightarrow> cellmap (set_bold r c ws) = cellmap ws"
  by (auto simp: set_bold_def Let_def cellmap_get_cell cellmap_def[of "_\<lparr>bold_cells := _\<rparr>"]
      cellmap_def[symmetric] fun_upd_idem_iff)

text \<open>On a place with no cell, \<open>ws.cell\<close> leaves what the cell keeps of the value, or raises.\<close>

lemma ws_cell_refused: "bind_value v = Inl e \<Longrightarrow> ws_cell r c v ws = Inl e"
  by (cases v) (auto simp: ws_cell_def Let_def)

lemma ws_cell_kept:
  assumes "cellmap ws (r, c) = None" and "bind_value v = Inr v'"
  shows "\<exists>ws'. ws_cell r c v ws = Inr ws' \<and> cellmap ws' = (cellmap ws)((r, c) \<mapsto> v')"
proof (cases "v = JNull")
  case True
  with assms show ?thesis
    by (auto simp: ws_cell_def Let_def cellmap_get_cell)
next
  case False
  with assms show ?thesis
    by (auto simp: ws_cell_def Let_def cellmap_get_cell cellmap_def[of "_\<lparr>cells := _\<rparr>"]
        update_conv' cellmap_def[symmetric])
qed

lemma take_chars_short: "length s \<le> n \<Longrightarrow> take_chars n s = s"
  by (induction s arbitrary: n) auto

lemma bind_header: "h \<in> set headers \<Longrightarrow> bind_value (JStr h) = Inr (JStr h)"
  by (auto simp: headers_def take_chars_short illegal_character_def)

lemma and_then_Inr: "and_then x Inr = x" "and_then x (\<lambda>a. Inr a) = x"
  by (cases x; simp add: and_then_def)+

lemma write_item_row: "write_item idx item ws = write_row (Suc idx) 1 (item_values idx item) ws"
proof -
  have n: "Suc 1 = 2" "Suc 2 = 3" "Suc 3 = 4" "Suc 4 = 5" "Suc 5 = 6"
    by simp_all
  show ?thesis
    unfolding write_item_def item_values_def write_row.simps n and_then_Inr
    by (simp add: and_then_def split: sum.splits)
qed

lemma bind_all_length: "bind_all vs = Inr vs' \<Longrightarrow> length vs' = length vs"
  by (induction vs arbitrary: vs') (auto simp: and_then_def split: sum.splits)

lemma write_row_refused:
  "bind_all vs = Inl e \<Longrightarrow> (\<And>c'. c \<le> c' \<Longrightarrow> cellmap ws (r, c') = None) \<Longrightarrow>
   write_row r c vs ws = Inl e"
proof (induction vs arbitrary: c ws)
  case Nil
  then show ?case by simp
next
  case (Cons v vs)
  show ?case
  proof (cases "bind_value v")
    case (Inl e')
    with Cons.prems(1) show ?thesis
      by (simp add: and_then_simps ws_cell_refused)
  next
    case (Inr v')
    from ws_cell_kept [OF Cons.prems(2) [of c] Inr] obtain ws'
      where ws': "ws_cell r c v ws = Inr ws'" "cellmap ws' = (cellmap ws)((r, c) \<mapsto> v')"
      by auto
    from Cons.prems(1) Inr have "bind_all vs = Inl e"
      by (auto simp: and_then_def split: sum.splits)
    moreover have "\<And>c'. Suc c \<le> c' \<Longrightarrow> cellmap ws' (r, c') = None"
      using Cons.prems(2) by (simp add: ws')
    ultimately have "write_row r (Suc c) vs ws' = Inl e"
      by (rule Cons.IH)
    then show ?thesis
      by (simp add: ws' and_then_simps)
  qed
qed

lemma write_row_kept:
  "bind_all vs = Inr vs' \<Longrightarrow> (\<And>c'. c \<le> c' \<Longrightarrow> cellmap ws (r, c') = None) \<Longrightarrow>
   \<exists>ws'. write_row r c vs ws = Inr ws' \<and>
     (\<forall>r' c'. cellmap ws' (r', c') =
        (if r' = r \<and> c \<le> c' \<and> c' < c + length vs then Some (vs' ! (c' - c))
         else cellmap ws (r', c')))"
proof (induction vs arbitrary: c ws vs')
  case Nil
  then show ?case by simp
next
  case (Cons v vs)
  from Cons.prems(1) obtain v' vs'' where
    v: "bind_value v = Inr v'" and vs: "bind_all vs = Inr vs''" and eq: "vs' = v' # vs''"
    by (auto simp: and_then_def split: sum.splits)
  from ws_cell_kept [OF Cons.prems(2) [of c] v] obtain ws1
    where ws1: "ws_cell r c v ws = Inr ws1" "cellmap ws1 = (cellmap ws)((r, c) \<mapsto> v')"
    by auto
  have fresh: "\<And>c'. Suc c \<le> c' \<Longrightarrow> cellmap ws1 (r, c') = None"
    using Cons.prems(2) by (simp add: ws1)
  from Cons.IH [OF vs fresh] obtain ws' where
    ws': "write_row r (Suc c) vs ws1 = Inr ws'"
    "\<And>r' c'. cellmap ws' (r', c') =
        (if r' = r \<and> Suc c \<le> c' \<and> c' < Suc c + length vs then Some (vs'' ! (c' - Suc c))
         else cellmap ws1 (r', c'))"
    by blast
  show ?case
    by (rule exI [of _ ws']) (auto simp: ws1 ws' and_then_simps eq nth_Cons' Suc_diff_le)
qed

lemma write_headers_cells:
  "(\<And>c. col \<le> c \<Longrightarrow> cellmap ws (1, c) = None) \<Longrightarrow>
   (\<And>h. h \<in> set hs \<Longrightarrow> bind_value (JStr h) = Inr (JStr h)) \<Longrightarrow>
   \<exists>ws'. write_headers col hs ws = Inr ws' \<and>
     (\<forall>r c. cellmap ws' (r, c) =
        (if r = 1 \<and> col \<le> c \<and> c < col + length hs then Some (JStr (hs ! (c - col)))
         else cellmap ws (r, c)))"
proof (induction hs arbitrary: col ws)
  case Nil
  then show ?case by simp
next
  case (Cons h hs)
  have "bind_value (JStr h) = Inr (JStr h)"
    using Cons.prems(2) by simp
  from ws_cell_kept [OF Cons.prems(1) [of col] this] obtain ws1
    where ws1: "ws_cell (Suc 0) col (JStr h) ws = Inr ws1"
      "cellmap ws1 = (cellmap ws)((Suc 0, col) \<mapsto> JStr h)"
    by auto
  let ?ws = "set_bold (Suc 0) col ws1"
  have step: "cellmap ?ws = (cellmap ws)((Suc 0, col) \<mapsto> JStr h)"
    by (simp add: cellmap_set_bold ws1)
  have fresh: "\<And>c. Suc col \<le> c \<Longrightarrow> cellmap ?ws (1, c) = None"
    using Cons.prems(1) by (simp add: step)
  have ok: "\<And>h. h \<in> set hs \<Longrightarrow> bind_value (JStr h) = Inr (JStr h)"
    using Cons.prems(2) by simp
  from Cons.IH [OF fresh ok] obtain ws' where
    ws': "write_headers (Suc col) hs ?ws = Inr ws'"
    "\<And>r c. cellmap ws' (r, c) =
        (if r = 1 \<and> Suc col \<le> c \<and> c < Suc col + length hs then Some (JStr (hs ! (c - Suc col)))
         else cellmap ?ws (r, c))"
    by blast
  show ?case
    by (rule exI [of _ ws']) (auto simp: ws1 ws' step and_then_simps nth_Cons' Suc_diff_le)
qed

lemma write_items_refused:
  "bind_items idx its = Inl e \<Longrightarrow> (\<And>r c. idx < r \<Longrightarrow> cellmap ws (r, c) = None) \<Longrightarrow>
   write_items idx its ws = Inl e"
proof (induction its arbitrary: idx ws)
  case Nil
  then show ?case by simp
next
  case (Cons item its)
  have row: "\<And>c. 1 \<le> c \<Longrightarrow> cellmap ws (Suc idx, c) = None"
    using Cons.prems(2) by simp
  show ?case
  proof (cases "bind_all (item_values idx item)")
    case (Inl e')
    with Cons.prems(1) have "e' = e" by (simp add: and_then_simps)
    with Inl show ?thesis
      by (simp add: and_then_simps write_item_row write_row_refused [OF _ row])
  next
    case (Inr vs)
    from write_row_kept [OF Inr row] obtain ws1 where
      ws1: "write_item idx item ws = Inr ws1"
      "\<And>r c. cellmap ws1 (r, c) =
        (if r = Suc idx \<and> 1 \<le> c \<and> c < 1 + length (item_values idx item) then Some (vs ! (c - 1))
         else cellmap ws (r, c))"
      unfolding write_item_row by blast
    from Cons.prems(1) Inr have "bind_items (Suc idx) its = Inl e"
      by (auto simp: and_then_def split: sum.splits)
    moreover have "\<And>r c. Suc idx < r \<Longrightarrow> cellmap ws1 (r, c) = None"
      using Cons.prems(2) by (simp add: ws1)
    ultimately have "write_items (Suc idx) its ws1 = Inl e"
      by (rule Cons.IH)
    then show ?thesis
      by (simp add: ws1 and_then_simps)
  qed
qed

lemma write_items_kept:
  "bind_items idx its = Inr rows \<Longrightarrow> (\<And>r c. idx < r \<Longrightarrow> cellmap ws (r, c) = None) \<Longrightarrow>
   \<exists>ws'. write_items idx its ws = Inr ws' \<and>
     (\<forall>r c. cellmap ws' (r, c) =
        (if idx < r \<and> r \<le> idx + length its \<and> 1 \<le> c \<and> c \<le> 6
         then Some (rows ! (r - 1 - idx) ! (c - 1))
         else cellmap ws (r, c)))"
proof (induction its arbitrary: idx ws rows)
  case Nil
  then show ?case by simp
next
  case (Cons item its)
  from Cons.prems(1) obtain vs rows' where
    vs: "bind_all (item_values idx item) = Inr vs"
    and rest: "bind_items (Suc idx) its = Inr rows'" and eq: "rows = vs # rows'"
    by (auto simp: and_then_def split: sum.splits)
  have row: "\<And>c. 1 \<le> c \<Longrightarrow> cellmap ws (Suc idx, c) = None"
    using Cons.prems(2) by simp
  have six: "length (item_values idx item) = 6"
    by (simp add: item_values_def)
  from write_row_kept [OF vs row] obtain ws1 where
    ws1: "write_item idx item ws = Inr ws1"
    "\<And>r c. cellmap ws1 (r, c) =
      (if r = Suc idx \<and> 1 \<le> c \<and> c \<le> 6 then Some (vs ! (c - 1)) else cellmap ws (r, c))"
    unfolding write_item_row six by fastforce
  have fresh: "\<And>r c. Suc idx < r \<Longrightarrow> cellmap ws1 (r, c) = None"
    using Cons.prems(2) by (simp add: ws1)
  from Cons.IH [OF rest fresh] obtain ws' where
    ws': "write_items (Suc idx) its ws1 = Inr ws'"
    "\<And>r c. cellmap ws' (r, c) =
        (if Suc idx < r \<and> r \<le> Suc idx + length its \<and> 1 \<le> c \<and> c \<le> 6
         then Some (rows' ! (r - 1 - Suc idx) ! (c - 1))
         else cellmap ws1 (r, c))"
    by blast
  show ?case
    by (rule exI [of _ ws']) (auto simp: ws1 ws' and_then_simps eq nth_Cons' Suc_diff_le)
qed

subsection \<open>The rows of the exported sheet\<close>

lemma bind_items_rows:
  "bind_items idx its = Inr rows \<Longrightarrow>
   length rows = length its \<and>
   (\<forall>i<length its. bind_all (item_values (idx + i) (its ! i)) = Inr (rows ! i))"
proof (induction its arbitrary: idx rows)
  case Nil
  then show ?case by simp
next
  case (Cons item its)
  from Cons.prems obtain vs rows' where
    vs: "bind_all (item_values idx item) = Inr vs"
    and rest: "bind_items (Suc idx) its = Inr rows'" and eq: "rows = vs # rows'"
    by (auto simp: and_then_def split: sum.splits)
  from Cons.IH [OF rest] show ?case
    by (auto simp: eq vs nth_Cons split: nat.splits)
qed

lemma bind_items_row_length:
  assumes "bind_items idx its = Inr rows" and "i < length its"
  shows "length (rows ! i) = 6"
proof -
  from bind_items_rows [OF assms(1)] assms(2)
  have "bind_all (item_values (idx + i) (its ! i)) = Inr (rows ! i)" by simp
  from bind_all_length [OF this] show ?thesis by (simp add: item_values_def)
qed

lemma max_row_Max: "cells ws \<noteq> [] \<Longrightarrow> max_row ws = Max (fst ` dom (cellmap ws))"
proof -
  assume "cells ws \<noteq> []"
  then obtain k ks where ks: "map (fst \<circ> fst) (cells ws) = k # ks"
    by (cases "cells ws") auto
  have "fst ` dom (cellmap ws) = set (map (fst \<circ> fst) (cells ws))"
    by (simp add: cellmap_def dom_map_of_conv_image_fst image_image)
  moreover have "fold max ks k = Max (set (k # ks))"
    by (simp only: Max.set_eq_fold)
  ultimately show ?thesis
    by (simp add: max_row_def ks)
qed

lemma max_column_Max: "cells ws \<noteq> [] \<Longrightarrow> max_column ws = Max (snd ` dom (cellmap ws))"
proof -
  assume "cells ws \<noteq> []"
  then obtain k ks where ks: "map (snd \<circ> fst) (cells ws) = k # ks"
    by (cases "cells ws") auto
  have "snd ` dom (cellmap ws) = set (map (snd \<circ> fst) (cells ws))"
    by (simp add: cellmap_def dom_map_of_conv_image_fst image_image)
  moreover have "fold max ks k = Max (set (k # ks))"
    by (simp only: Max.set_eq_fold)
  ultimately show ?thesis
    by (simp add: max_column_def ks)
qed

lemma Max_from_1: "Max {Suc 0..Suc n} = Suc n"
  by (rule Max_eqI) auto

lemma upt_1_7: "[Suc 0..<7] = [1, 2, 3, 4, 5, 6::nat]"
  by (simp add: upt_rec)

lemma six_cells:
  assumes "length xs = 6" and "\<And>c. 1 \<le> c \<Longrightarrow> c \<le> 6 \<Longrightarrow> f c = xs ! (c - 1)"
  shows "map f [Suc 0..<7] = xs"
proof (rule nth_equalityI)
  show "length (map f [Suc 0..<7]) = length xs"
    using assms(1) by simp
next
  fix i assume "i < length (map f [Suc 0..<7])"
  then have i: "i < 6" by simp
  then have "map f [Suc 0..<7] ! i = f (Suc i)"
    by (simp add: nth_map_upt del: upt_Suc)
  also have "\<dots> = xs ! i"
    using assms(2) [of "Suc i"] i by simp
  finally show "map f [Suc 0..<7] ! i = xs ! i" .
qed

text \<open>A sheet whose cells are a header row and item rows of six cells has just those rows.\<close>

lemma sheet_rows_of_cells:
  assumes cm: "\<And>r c. cellmap ws (r, c) =
        (if 1 \<le> c \<and> c \<le> 6 then
           (if r = 1 then Some (hs ! (c - 1))
            else if 1 < r \<and> r \<le> Suc n then Some (rows ! (r - 2) ! (c - 1))
            else None)
         else None)"
    and hs: "length hs = 6" and rows: "length rows = n"
    and six: "\<And>i. i < n \<Longrightarrow> length (rows ! i) = 6"
  shows "sheet_rows ws = hs # rows"
proof -
  have dom: "dom (cellmap ws) = {1..Suc n} \<times> {1..6}"
    by (auto simp: dom_def cm split: if_splits)
  have ne: "cells ws \<noteq> []"
  proof
    assume "cells ws = []"
    then have "cellmap ws (1, 1) = None" by (simp add: cellmap_def)
    then show False by (simp add: cm)
  qed
  have "fst ` ({1..Suc n} \<times> {1..6::nat}) = {1..Suc n}"
    by (auto simp: image_iff)
  then have mr: "max_row ws = Suc n"
    by (simp add: max_row_Max ne dom Max_from_1)
  have "snd ` ({1..Suc n} \<times> {1..6::nat}) = {1..6}"
    by (auto simp: image_iff)
  then have mc: "max_column ws = 6"
    using Max_from_1 [of 5] by (simp add: max_column_Max ne dom)
  have cv: "\<And>r c. 1 \<le> c \<Longrightarrow> c \<le> 6 \<Longrightarrow> 1 \<le> r \<Longrightarrow> r \<le> Suc n \<Longrightarrow>
      cell_value ws r c = (if r = 1 then hs ! (c - 1) else rows ! (r - 2) ! (c - 1))"
    using cm by (auto simp: cell_value_def cellmap_def)
  have len: "length (sheet_rows ws) = Suc n"
    by (simp add: sheet_rows_def ne mr del: upt_Suc)
  show ?thesis
  proof (rule nth_equalityI)
    show "length (sheet_rows ws) = length (hs # rows)"
      by (simp add: len rows)
  next
    fix i assume "i < length (sheet_rows ws)"
    then have i: "i < Suc n"
      by (simp add: len)
    have "sheet_rows ws ! i = map (cell_value ws (Suc i)) [Suc 0..<7]"
      using i by (simp add: sheet_rows_def ne mr mc nth_map_upt del: upt_Suc)
    also have "\<dots> = (hs # rows) ! i"
    proof (cases i)
      case 0
      then show ?thesis
        by (intro six_cells) (simp_all add: hs cv)
    next
      case (Suc j)
      with i have j: "j < n" by simp
      show ?thesis
        unfolding Suc nth_Cons_Suc
        by (intro six_cells) (use j in \<open>simp_all add: six cv\<close>)
    qed
    finally show "sheet_rows ws ! i = (hs # rows) ! i" .
  qed
qed

lemma header_sheet:
  "\<exists>ws. write_headers (Suc 0) headers \<lparr>title = t, cells = [], bold_cells = []\<rparr> = Inr ws \<and>
     (\<forall>r c. cellmap ws (r, c) =
        (if r = 1 \<and> 1 \<le> c \<and> c \<le> 6 then Some (JStr (headers ! (c - 1))) else None))"
proof -
  have fresh: "\<And>c. 1 \<le> c \<Longrightarrow> cellmap \<lparr>title = t, cells = [], bold_cells = []\<rparr> (1, c) = None"
    by (simp add: cellmap_def)
  from write_headers_cells [where col = 1 and hs = headers, OF fresh bind_header]
  obtain ws where ws: "write_headers 1 headers \<lparr>title = t, cells = [], bold_cells = []\<rparr> = Inr ws"
    "\<And>r c. cellmap ws (r, c) =
        (if r = 1 \<and> 1 \<le> c \<and> c < 1 + length headers then Some (JStr (headers ! (c - 1)))
         else cellmap \<lparr>title = t, cells = [], bold_cells = []\<rparr> (r, c))"
    by blast
  have six: "length headers = 6" by (simp add: headers_def)
  have none: "\<And>k. cellmap \<lparr>title = t, cells = [], bold_cells = []\<rparr> k = None"
    by (simp add: cellmap_def)
  show ?thesis
    using ws(1) by (intro exI [of _ ws]) (auto simp: ws(2) six none)
qed

lemma build_workbook_refused:
  assumes "bind_items 1 its = Inl e"
  shows "build_workbook its = Inl e"
proof -
  from header_sheet [of "''Hardware Inventory''"] obtain ws where
    ws: "write_headers (Suc 0) headers
          \<lparr>title = ''Hardware Inventory'', cells = [], bold_cells = []\<rparr> = Inr ws"
    "\<And>r c. cellmap ws (r, c) =
        (if r = 1 \<and> 1 \<le> c \<and> c \<le> 6 then Some (JStr (headers ! (c - 1))) else None)"
    by blast
  have fresh: "\<And>r c. Suc 0 < r \<Longrightarrow> cellmap ws (r, c) = None"
    by (simp add: ws(2))
  from assms have "bind_items (Suc 0) its = Inl e" by simp
  from write_items_refused [OF this fresh] show ?thesis
    by (simp add: build_workbook_def Let_def ws(1) and_then_simps)
qed

lemma build_workbook_kept:
  assumes "bind_items 1 its = Inr rows"
  shows "\<exists>ws. build_workbook its = Inr \<lparr>sheets = [ws]\<rparr> \<and> sheet_rows ws = map JStr headers # rows"
proof -
  from header_sheet [of "''Hardware Inventory''"] obtain ws0 where
    ws0: "write_headers (Suc 0) headers
          \<lparr>title = ''Hardware Inventory'', cells = [], bold_cells = []\<rparr> = Inr ws0"
    "\<And>r c. cellmap ws0 (r, c) =
        (if r = 1 \<and> 1 \<le> c \<and> c \<le> 6 then Some (JStr (headers ! (c - 1))) else None)"
    by blast
  have fresh: "\<And>r c. Suc 0 < r \<Longrightarrow> cellmap ws0 (r, c) = None"
    by (simp add: ws0(2))
  from assms have b: "bind_items (Suc 0) its = Inr rows" by simp
  from write_items_kept [OF b fresh] obtain ws where
    ws: "write_items (Suc 0) its ws0 = Inr ws"
    "\<And>r c. cellmap ws (r, c) =
        (if Suc 0 < r \<and> r \<le> Suc 0 + length its \<and> 1 \<le> c \<and> c \<le> 6
         then Some (rows ! (r - 1 - Suc 0) ! (c - 1))
         else cellmap ws0 (r, c))"
    by blast
  have built: "build_workbook its = Inr \<lparr>sheets = [ws]\<rparr>"
    by (simp add: build_workbook_def Let_def ws0(1) ws(1) and_then_simps)
  have eq: "\<And>r. r - Suc (Suc 0) = r - 2" by simp
  have "length headers = 6" by (simp add: headers_def)
  then have hd: "\<And>c. Suc 0 \<le> c \<Longrightarrow> c \<le> 6 \<Longrightarrow>
      map JStr headers ! (c - Suc 0) = JStr (headers ! (c - Suc 0))"
    by (intro nth_map) simp
  have cm: "\<And>r c. cellmap ws (r, c) =
        (if 1 \<le> c \<and> c \<le> 6 then
           (if r = 1 then Some (map JStr headers ! (c - 1))
            else if 1 < r \<and> r \<le> Suc (length its) then Some (rows ! (r - 2) ! (c - 1))
            else None)
         else None)"
    by (auto simp: ws(2) ws0(2) eq hd)
  have "sheet_rows ws = map JStr headers # rows"
  proof (rule sheet_rows_of_cells [OF cm])
    show "length (map JStr headers) = 6" by (simp add: headers_def)
    show "length rows = length its" using bind_items_rows [OF b] by simp
    show "\<And>i. i < length its \<Longrightarrow> length (rows ! i) = 6"
      using bind_items_row_length [OF b] by simp
  qed
  with built show ?thesis by blast
qed

lemma latin1_append: "latin1 (a @ b) = (latin1 a \<and> latin1 b)"
  by (induction a) auto

lemma latin1_disposition:
  "latin1 (''attachment; filename='' @ ''hardware_inventory_'' @ sid @ ''.xlsx'') = latin1 sid"
  by (simp add: latin1_append)

text \<open>What \<open>export_session\<close> answers for a stored session with items.\<close>

lemma export_refused:
  assumes "sessions st sid = Some s" and "items s \<noteq> []" and "bind_items 1 (items s) = Inl e"
  shows "export_session sid st = (Inl (PyException e), st)"
  using assms by (simp add: export_session_def build_workbook_refused)

lemma export_header_refused:
  assumes "sessions st sid = Some s" and "items s \<noteq> []" and "bind_items 1 (items s) = Inr rows"
    and "\<not> latin1 sid"
  shows "export_session sid st =
    (Inl (PyException (UnicodeEncodeError
       (''attachment; filename=hardware_inventory_'' @ sid @ ''.xlsx''))), st)"
proof -
  from build_workbook_kept [OF assms(3)] obtain ws where
    "build_workbook (items s) = Inr \<lparr>sheets = [ws]\<rparr>" by blast
  with assms show ?thesis
    by (simp add: export_session_def Let_def latin1_append)
qed

lemma export_kept:
  assumes "sessions st sid = Some s" and "items s \<noteq> []" and "bind_items 1 (items s) = Inr rows"
    and "latin1 sid"
  shows "\<exists>resp ws. export_session sid st = (Inr resp, st) \<and> sheets (body resp) = [ws]
           \<and> sheet_rows ws = map JStr headers # rows"
proof -
  from build_workbook_kept [OF assms(3)] obtain ws where
    "build_workbook (items s) = Inr \<lparr>sheets = [ws]\<rparr>" "sheet_rows ws = map JStr headers # rows"
    by blast
  with assms show ?thesis
    by (simp add: export_session_def Let_def latin1_append)
qed

lemmas bind_simps =
  bind_value.simps bind_all.simps bind_items.simps and_then_simps item_values_def dict_get_def
  Let_def take_chars_short illegal_character_def

text \<open>In the export of a stored session, row \<open>i + 1\<close> holds what the cells keep of item \<open>i\<close>.\<close>

lemma export_rows_in_order:
  assumes "sessions st sid = Some s" and "bind_items 1 (items s) = Inr rows" and "latin1 sid"
    and "i < length (items s)"
  shows "\<exists>resp ws. export_session sid st = (Inr resp, st) \<and> sheets (body resp) = [ws]
           \<and> length (sheet_rows ws) = length (items s) + 1
           \<and> sheet_rows ws ! 0 = map JStr headers
           \<and> bind_all (item_values (Suc i) (items s ! i)) = Inr (sheet_rows ws ! Suc i)"
proof -
  from assms(4) have ne: "items s \<noteq> []" by auto
  from export_kept [OF assms(1) ne assms(2,3)] obtain resp ws where
    e: "export_session sid st = (Inr resp, st)" "sheets (body resp) = [ws]"
    "sheet_rows ws = map JStr headers # rows"
    by blast
  from bind_items_rows [OF assms(2)] assms(4) have
    "length rows = length (items s)" "bind_all (item_values (Suc i) (items s ! i)) = Inr (rows ! i)"
    by simp_all
  with e show ?thesis by simp
qed

lemma demo_sessions:
  "sessions demo_server ''s1'' = Some demo_session"
  "sessions demo_server ''s0'' = Some \<lparr>items = [], started_at = ''2026-01-05T08:00:00.000000''\<rparr>"
  "sessions demo_server ''s9'' = None"
  by (simp_all add: demo_server_def)

subsection \<open>What a submission does to the store\<close>

lemma extract_fst_indep:
  "fst (extract_hardware_info E img n) = fst (extract_hardware_info E img 0)"
  by (simp add: extract_hardware_info_def vision_call_def split: option.splits sum.splits prod.splits)

lemma auto_create_eq: "auto_create E sid ss = ss(sid \<mapsto> target E sid ss)"
  by (auto simp: auto_create_def target_def split: option.splits)

lemma process_image_sessions:
  "sessions (snd (process_image E r st)) =
     (case stored_record E (image_base64 r) of
        None \<Rightarrow> (sessions st)(session_id r \<mapsto> target E (session_id r) (sessions st))
      | Some d \<Rightarrow> (sessions st)(session_id r \<mapsto>
          (target E (session_id r) (sessions st))
            \<lparr>items := items (target E (session_id r) (sessions st)) @ [d]\<rparr>))"
proof -
  obtain x n where x: "extract_hardware_info E (image_base64 r) (api_calls st) = (x, n)"
    by (cases "extract_hardware_info E (image_base64 r) (api_calls st)")
  then have x0: "fst (extract_hardware_info E (image_base64 r) 0) = x"
    using extract_fst_indep [of E "image_base64 r" "api_calls st"] by simp
  show ?thesis
    by (simp add: process_image_def Let_def x stored_record_def x0 auto_create_eq append_item_def
        split: sum.splits)
qed

lemma append_after_create:
  "append_item sid d (auto_create E sid ss) =
     Inr ((auto_create E sid ss)(sid \<mapsto> (target E sid ss)\<lparr>items := items (target E sid ss) @ [d]\<rparr>))"
  by (simp add: append_item_def auto_create_eq)

lemma export_state: "snd (export_session sid st) = st"
  by (simp add: export_session_def Let_def split: option.splits sum.splits)

lemma target_Some: "ss sid = Some s \<Longrightarrow> target E sid ss = s"
  by (simp add: target_def)

lemma failure_fields:
  "success (failure e) = False" "data (failure e) = None" "scan_count (failure e) = 0"
  by (cases e; simp)+

lemma vision_call_failure:
  assumes "(fst (create E key img) = Inl e \<and> m = str_of e)
         \<or> (fst (create E key img) = Inr content \<and> json_loads E content = Inl m)"
  shows "vision_call E key img n = (Inl m, n + snd (create E key img))"
  using assms by (cases "create E key img") (auto simp: vision_call_def)

text \<open>A submission adds to its session's records the one it stores, at the end.\<close>

lemma session_items_process_image:
  "session_items (snd (process_image E r st)) sid =
     session_items st sid @ (case stored_by sid (E, r) of None \<Rightarrow> [] | Some d \<Rightarrow> [d])"
  by (simp add: session_items_def process_image_sessions stored_by_def target_def
      split: option.splits)

lemma session_items_submit_all:
  "session_items (submit_all subs st) sid =
     session_items st sid @ List.map_filter (stored_by sid) subs"
proof (induction subs arbitrary: st)
  case Nil
  then show ?case by (simp add: map_filter_simps)
next
  case (Cons x subs)
  obtain E r where x: "x = (E, r)" by (cases x)
  show ?case
    by (simp add: x Cons.IH session_items_process_image map_filter_simps split: option.splits)
qed

lemma demo_subs_run: "sessions (submit_all demo_subs demo_server) ''s1'' = Some demo_session_after"
  by (simp add: demo_subs_def demo_session_after_def process_image_sessions stored_record_def
      extract_hardware_info_def vision_call_def target_def demo_defs)

text \<open>
  The stored record has the keys of the model's dict and \<^verbatim>\<open>timestamp\<close>: a key the model
  left out is not in it. The response's record and the export's row fill the default in.
\<close>

lemma stored_record_keys:
  assumes "stored_record E img = Some d" and "k \<noteq> ''timestamp''"
  shows "\<exists>d0. fst (extract_hardware_info E img 0) = Inr (JObj d0) \<and> map_of d k = map_of d0 k"
proof -
  from assms(1) obtain j where j: "fst (extract_hardware_info E img 0) = Inr j"
    and s: "setitem_timestamp j (now_strftime E) = Inr d"
    by (auto simp: stored_record_def split: sum.splits)
  from s obtain d0 where "j = JObj d0" "d = AList.update ''timestamp'' (JStr (now_strftime E)) d0"
    by (cases j) auto
  with j assms(2) show ?thesis
    by (simp add: update_conv')
qed

lemma HardwareData_defaults:
  assumes "HardwareData_init E d = Inr hw"
  shows "(map_of d ''brand'' = None \<longrightarrow> brand hw = ''N/A'')
       \<and> (map_of d ''capacity'' = None \<longrightarrow> capacity hw = ''N/A'')
       \<and> (map_of d ''generation'' = None \<longrightarrow> generation hw = ''N/A'')
       \<and> (map_of d ''speed'' = None \<longrightarrow> speed hw = ''N/A'')"
  using assms
  by (auto simp: HardwareData_init_def str_field_def split: option.splits)

lemma export_defaults: "map_of d k = None \<Longrightarrow> dict_get d k (JStr ''N/A'') = JStr ''N/A''"
  by (simp add: dict_get_def)

text \<open>\<^verbatim>\<open>start_session\<close> assigns whether or not the identifier has a session.\<close>

lemma start_session_assigns:
  "sessions (snd (start_session E st)) (now_session_id E) =
     Some \<lparr>items = [], started_at = now_isoformat E\<rparr>"
  by (simp add: start_session_def Let_def)

section \<open>The properties of the specification\<close>

text \<open>
  C1. Export of a session with \<open>N \<ge> 1\<close> scan records should answer with a workbook of one
  sheet and \<open>N + 1\<close> rows. Here are three sessions with one record each for which it
  raises instead, so that the caller gets status 500 and no workbook: the record's brand
  has a bell character (the submission had succeeded), the record's brand is a list (the
  record was stored before it failed validation), and the identifier has a character
  outside Latin-1.
\<close>

theorem export_raises_on_stored_record:
  "fst (process_image (demo_env ''2026-01-05 09:00:03'')
          \<lparr>session_id = ''s3'', image_base64 = ''Rg==''\<rparr> empty_server)
     = \<lparr>success = True,
        data = Some \<lparr>capacity = ''N/A'', generation = ''N/A'',
                    brand = ''King'' @ CHR 0x07 # ''ston'', speed = ''N/A'',
                    timestamp = Some ''2026-01-05 09:00:03''\<rparr>,
        error = None, scan_count = 1\<rparr>
   \<and> session_items (snd (process_image (demo_env ''2026-01-05 09:00:03'')
          \<lparr>session_id = ''s3'', image_base64 = ''Rg==''\<rparr> empty_server)) ''s3''
     = [[(''brand'', JStr (''King'' @ CHR 0x07 # ''ston'')),
         (''timestamp'', JStr ''2026-01-05 09:00:03'')]]
   \<and> fst (export_session ''s3'' (snd (process_image (demo_env ''2026-01-05 09:00:03'')
          \<lparr>session_id = ''s3'', image_base64 = ''Rg==''\<rparr> empty_server)))
     = Inl (PyException (IllegalCharacterError (''King'' @ CHR 0x07 # ''ston'')))
   \<and> session_items (snd (process_image (demo_env ''2026-01-05 09:00:03'')
          \<lparr>session_id = ''s3'', image_base64 = ''RQ==''\<rparr> empty_server)) ''s3''
     = [[(''brand'', JArr [JStr ''Kingston'', JStr ''HyperX'']),
         (''timestamp'', JStr ''2026-01-05 09:00:03'')]]
   \<and> fst (export_session ''s3'' (snd (process_image (demo_env ''2026-01-05 09:00:03'')
          \<lparr>session_id = ''s3'', image_base64 = ''RQ==''\<rparr> empty_server)))
     = Inl (PyException (ValueError (JArr [JStr ''Kingston'', JStr ''HyperX''])))
   \<and> session_items (snd (process_image (demo_env ''2026-01-05 09:00:03'')
          \<lparr>session_id = wide_id, image_base64 = ''QQ==''\<rparr> empty_server)) wide_id
     = [[(''capacity'', JStr ''8GB''), (''timestamp'', JStr ''2026-01-05 09:00:03'')]]
   \<and> fst (export_session wide_id (snd (process_image (demo_env ''2026-01-05 09:00:03'')
          \<lparr>session_id = wide_id, image_base64 = ''QQ==''\<rparr> empty_server)))
     = Inl (PyException (UnicodeEncodeError
         (''attachment; filename=hardware_inventory_'' @ wide_id @ ''.xlsx'')))"
proof -
  let ?E = "demo_env ''2026-01-05 09:00:03''"
  let ?bell = "[(''brand'', JStr (''King'' @ CHR 0x07 # ''ston'')),
                (''timestamp'', JStr ''2026-01-05 09:00:03'')]"
  let ?list = "[(''brand'', JArr [JStr ''Kingston'', JStr ''HyperX'']),
                (''timestamp'', JStr ''2026-01-05 09:00:03'')]"
  let ?good = "[(''capacity'', JStr ''8GB''), (''timestamp'', JStr ''2026-01-05 09:00:03'')]"
  let ?new = "\<lambda>sid d. \<lparr>sessions = [sid \<mapsto> \<lparr>items = [d],
                  started_at = ''2026-01-05T09:00:00.000000''\<rparr>], api_calls = 1\<rparr>"
  have bell: "process_image ?E \<lparr>session_id = ''s3'', image_base64 = ''Rg==''\<rparr> empty_server =
      (\<lparr>success = True,
        data = Some \<lparr>capacity = ''N/A'', generation = ''N/A'',
                    brand = ''King'' @ CHR 0x07 # ''ston'', speed = ''N/A'',
                    timestamp = Some ''2026-01-05 09:00:03''\<rparr>,
        error = None, scan_count = 1\<rparr>, ?new ''s3'' ?bell)"
    by (simp add: code_defs demo_defs empty_server_def Let_def)
  have list: "snd (process_image ?E \<lparr>session_id = ''s3'', image_base64 = ''RQ==''\<rparr> empty_server)
      = ?new ''s3'' ?list"
    by (simp add: code_defs demo_defs empty_server_def Let_def)
  have good: "snd (process_image ?E \<lparr>session_id = wide_id, image_base64 = ''QQ==''\<rparr> empty_server)
      = ?new wide_id ?good"
    by (simp add: code_defs demo_defs empty_server_def Let_def)
  have b1: "bind_items 1 [?bell] = Inl (IllegalCharacterError (''King'' @ CHR 0x07 # ''ston''))"
    by (simp add: bind_simps)
  have b2: "bind_items 1 [?list] = Inl (ValueError (JArr [JStr ''Kingston'', JStr ''HyperX'']))"
    by (simp add: bind_simps)
  have b3: "bind_items 1 [?good] =
      Inr [[JInt 1, JStr ''N/A'', JStr ''8GB'', JStr ''N/A'', JStr ''N/A'',
            JStr ''2026-01-05 09:00:03'']]"
    by (simp add: bind_simps)
  have wide: "\<not> latin1 wide_id"
    by (simp add: wide_id_def)
  have e1: "fst (export_session ''s3'' (?new ''s3'' ?bell)) =
      Inl (PyException (IllegalCharacterError (''King'' @ CHR 0x07 # ''ston'')))"
    using export_refused [of "?new ''s3'' ?bell" "''s3''" _ _] b1 by simp
  have e2: "fst (export_session ''s3'' (?new ''s3'' ?list)) =
      Inl (PyException (ValueError (JArr [JStr ''Kingston'', JStr ''HyperX''])))"
    using export_refused [of "?new ''s3'' ?list" "''s3''" _ _] b2 by simp
  have e3: "fst (export_session wide_id (?new wide_id ?good)) =
      Inl (PyException (UnicodeEncodeError
         (''attachment; filename=hardware_inventory_'' @ wide_id @ ''.xlsx'')))"
    using export_header_refused [of "?new wide_id ?good" wide_id _ _] b3 wide by simp
  show ?thesis
    unfolding bell list good
    using e1 e2 e3 by (simp add: session_items_def)
qed

text \<open>
  C2. When the model's JSON leaves out one of brand, capacity, generation and speed, the
  record shown to the caller has \<^verbatim>\<open>"N/A"\<close> there. Here the model answers
  \<^verbatim>\<open>{"capacity": "8GB"}\<close> to the first scan of a new session: the response's record has
  the default for brand, while the record that lookup returns has no brand at all.
\<close>

theorem lookup_leaves_omitted_field_absent:
  "fst (process_image (demo_env ''2026-01-05 09:00:03'')
          \<lparr>session_id = ''s2'', image_base64 = ''QQ==''\<rparr> empty_server)
     = \<lparr>success = True,
        data = Some \<lparr>capacity = ''8GB'', generation = ''N/A'', brand = ''N/A'', speed = ''N/A'',
                    timestamp = Some ''2026-01-05 09:00:03''\<rparr>,
        error = None, scan_count = 1\<rparr>
   \<and> fst (get_session ''s2'' (snd (process_image (demo_env ''2026-01-05 09:00:03'')
          \<lparr>session_id = ''s2'', image_base64 = ''QQ==''\<rparr> empty_server)))
     = Inr \<lparr>view_session_id = ''s2'',
            view_items = [[(''capacity'', JStr ''8GB''), (''timestamp'', JStr ''2026-01-05 09:00:03'')]],
            view_scan_count = 1,
            view_started_at = ''2026-01-05T09:00:00.000000''\<rparr>
   \<and> map_of [(''capacity'', JStr ''8GB''), (''timestamp'', JStr ''2026-01-05 09:00:03'')] ''brand''
     = None
   \<and> (\<exists>resp ws. fst (export_session ''s2'' (snd (process_image (demo_env ''2026-01-05 09:00:03'')
          \<lparr>session_id = ''s2'', image_base64 = ''QQ==''\<rparr> empty_server))) = Inr resp
        \<and> sheets (body resp) = [ws]
        \<and> sheet_rows ws ! 1 =
             [JInt 1, JStr ''N/A'', JStr ''8GB'', JStr ''N/A'', JStr ''N/A'',
              JStr ''2026-01-05 09:00:03''])"
proof -
  let ?E = "demo_env ''2026-01-05 09:00:03''"
  let ?r = "\<lparr>session_id = ''s2'', image_base64 = ''QQ==''\<rparr>"
  let ?d = "[(''capacity'', JStr ''8GB''), (''timestamp'', JStr ''2026-01-05 09:00:03'')]"
  let ?s = "\<lparr>items = [?d], started_at = ''2026-01-05T09:00:00.000000''\<rparr>"
  have run: "process_image ?E ?r empty_server =
      (\<lparr>success = True,
        data = Some \<lparr>capacity = ''8GB'', generation = ''N/A'', brand = ''N/A'', speed = ''N/A'',
                    timestamp = Some ''2026-01-05 09:00:03''\<rparr>,
        error = None, scan_count = 1\<rparr>,
       \<lparr>sessions = [''s2'' \<mapsto> ?s], api_calls = 1\<rparr>)"
    by (simp add: code_defs demo_defs empty_server_def Let_def)
  let ?st = "\<lparr>sessions = [''s2'' \<mapsto> ?s], api_calls = 1\<rparr>"
  have look: "fst (get_session ''s2'' ?st) =
      Inr \<lparr>view_session_id = ''s2'', view_items = [?d], view_scan_count = 1,
           view_started_at = ''2026-01-05T09:00:00.000000''\<rparr>"
    by (simp add: get_session_def)
  have s: "sessions ?st ''s2'' = Some ?s" "items ?s \<noteq> []"
    by simp_all
  have rows: "bind_items 1 (items ?s) =
      Inr [[JInt 1, JStr ''N/A'', JStr ''8GB'', JStr ''N/A'', JStr ''N/A'',
            JStr ''2026-01-05 09:00:03'']]"
    by (simp add: bind_simps)
  have id: "latin1 ''s2''" by simp
  from export_kept [OF s rows id] obtain resp ws where
    "export_session ''s2'' ?st = (Inr resp, ?st)" "sheets (body resp) = [ws]"
    "sheet_rows ws ! 1 =
       [JInt 1, JStr ''N/A'', JStr ''8GB'', JStr ''N/A'', JStr ''N/A'', JStr ''2026-01-05 09:00:03'']"
    by auto
  then have "\<exists>resp ws. fst (export_session ''s2'' ?st) = Inr resp \<and> sheets (body resp) = [ws]
      \<and> sheet_rows ws ! 1 =
           [JInt 1, JStr ''N/A'', JStr ''8GB'', JStr ''N/A'', JStr ''N/A'',
            JStr ''2026-01-05 09:00:03'']"
    by auto
  with look show ?thesis
    unfolding run by simp
qed

text \<open>
  C3. Submitting an image under an identifier that already has a session creates nothing:
  the creation step leaves the store as it is, and after the whole submission the session
  has its creation time and its earlier records, followed by at most one new record.
\<close>

theorem creation_idempotent:
  assumes "sessions st sid = Some s"
  shows "auto_create E sid (sessions st) = sessions st
       \<and> (\<exists>s'. sessions (snd (process_image E \<lparr>session_id = sid, image_base64 = img\<rparr> st)) sid = Some s'
              \<and> started_at s' = started_at s
              \<and> take (length (items s)) (items s') = items s
              \<and> length (items s') \<le> length (items s) + 1)"
  using assms
  by (simp add: auto_create_def process_image_sessions target_Some split: option.splits)

theorem creation_idempotent_witness:
  "sessions demo_server ''s1'' = Some demo_session
   \<and> auto_create (demo_env ''2026-01-05 09:00:03'') ''s1'' (sessions demo_server) = sessions demo_server
   \<and> (\<exists>s'. sessions (snd (process_image (demo_env ''2026-01-05 09:00:03'')
                \<lparr>session_id = ''s1'', image_base64 = ''QQ==''\<rparr> demo_server)) ''s1'' = Some s'
          \<and> started_at s' = ''2026-01-05T09:00:00.000000''
          \<and> take (length (items demo_session)) (items s') = items demo_session)"
  using creation_idempotent [OF demo_sessions(1), of "demo_env ''2026-01-05 09:00:03''" "''QQ==''"]
  by (auto simp: demo_sessions demo_session_def)

text \<open>
  C4, as stated, fails in its last part. When the hosted model cannot be reached, the
  error does reach the caller, but only after the client has made three attempts.
\<close>

theorem retry_on_dropped_connection:
  "attempt (demo_env ''2026-01-05 09:00:03'') ''gsk_live'' ''RA=='' 0
     = Dropped (APIConnectionError ''Connection error.'')
   \<and> snd (create (demo_env ''2026-01-05 09:00:03'') ''gsk_live'' ''RA=='') = 3
   \<and> api_calls demo_server = 2
   \<and> process_image (demo_env ''2026-01-05 09:00:03'')
         \<lparr>session_id = ''s1'', image_base64 = ''RA==''\<rparr> demo_server
     = (\<lparr>success = False, data = None, error = Some ''Connection error.'', scan_count = 0\<rparr>,
        \<lparr>sessions = sessions demo_server, api_calls = 5\<rparr>)
   \<and> process_vision_data (demo_env ''2026-01-05 09:00:03'') ''D'' 0
     = (JObj [(''error'', JStr ''Connection error.'')], 3)"
proof -
  have same: "auto_create E ''s1'' (sessions demo_server) = sessions demo_server" for E
    by (simp add: auto_create_def demo_sessions)
  have calls: "api_calls demo_server = 2"
    by (simp add: demo_server_def)
  show ?thesis
    by (simp add: process_image_def extract_hardware_info_def vision_call_def
        process_vision_data_def Let_def same calls demo_create demo_env_fields demo_b64
        demo_attempt_def)
qed

text \<open>
  C4, amended. When the call to the client raises (authentication, network) or the content
  is not JSON, the text of the exception reaches the caller: \<^verbatim>\<open>process_image\<close> answers
  \<^verbatim>\<open>success = False\<close> with that text as error and the tool returns \<^verbatim>\<open>{"error": text}\<close>.
  The code calls the client once and has no retry of its own; the client makes between one
  and three attempts: one if the first attempt is not dropped, three if all three are.
\<close>

theorem vision_failure_surfaced:
  assumes "(fst (create E key img) = Inl e \<and> m = str_of e)
         \<or> (fst (create E key img) = Inr content \<and> json_loads E content = Inl m)"
  shows "(GROQ_API_KEY E = Some key \<and> key \<noteq> [] \<and> image_base64 r = img \<longrightarrow>
            process_image E r st =
              (\<lparr>success = False, data = None, error = Some m, scan_count = 0\<rparr>,
               \<lparr>sessions = auto_create E (session_id r) (sessions st),
                api_calls = api_calls st + snd (create E key img)\<rparr>))
       \<and> ((case GROQ_API_KEY E of None \<Rightarrow> [] | Some k \<Rightarrow> k) = key \<and> b64encode E file = img \<longrightarrow>
            process_vision_data E file n =
              (JObj [(''error'', JStr m)], n + snd (create E key img)))
       \<and> 1 \<le> snd (create E key img) \<and> snd (create E key img) \<le> 3
       \<and> (\<not> dropped (attempt E key img 0) \<longrightarrow> snd (create E key img) = 1)
       \<and> (dropped (attempt E key img 0) \<and> dropped (attempt E key img 1)
            \<and> dropped (attempt E key img 2) \<longrightarrow> snd (create E key img) = 3)"
  using vision_call_failure [OF assms] create_attempts [of E key img]
  by (auto simp: process_image_def extract_hardware_info_def process_vision_data_def Let_def)

theorem vision_failure_surfaced_witness:
  "process_image ((demo_env ''2026-01-05 09:00:03'')\<lparr>GROQ_API_KEY := Some ''gsk_old''\<rparr>)
       \<lparr>session_id = ''s1'', image_base64 = ''QQ==''\<rparr> demo_server
     = (\<lparr>success = False, data = None, error = Some ''Error code: 401'', scan_count = 0\<rparr>,
        \<lparr>sessions = sessions demo_server, api_calls = 3\<rparr>)
   \<and> process_image (demo_env ''2026-01-05 09:00:03'')
       \<lparr>session_id = ''s1'', image_base64 = ''RA==''\<rparr> demo_server
     = (\<lparr>success = False, data = None, error = Some ''Connection error.'', scan_count = 0\<rparr>,
        \<lparr>sessions = sessions demo_server, api_calls = 5\<rparr>)
   \<and> process_image (demo_env ''2026-01-05 09:00:03'')
       \<lparr>session_id = ''s1'', image_base64 = ''Qw==''\<rparr> demo_server
     = (\<lparr>success = False, data = None,
         error = Some ''Expecting value: line 1 column 1 (char 0)'', scan_count = 0\<rparr>,
        \<lparr>sessions = sessions demo_server, api_calls = 3\<rparr>)
   \<and> process_vision_data ((demo_env ''2026-01-05 09:00:03'')\<lparr>GROQ_API_KEY := Some ''gsk_old''\<rparr>)
       ''A'' 0
     = (JObj [(''error'', JStr ''Error code: 401'')], 1)
   \<and> process_vision_data (demo_env ''2026-01-05 09:00:03'') ''D'' 0
     = (JObj [(''error'', JStr ''Connection error.'')], 3)
   \<and> process_vision_data (demo_env ''2026-01-05 09:00:03'') ''C'' 0
     = (JObj [(''error'', JStr ''Expecting value: line 1 column 1 (char 0)'')], 1)"
proof -
  let ?E = "demo_env ''2026-01-05 09:00:03''"
  let ?old = "?E\<lparr>GROQ_API_KEY := Some ''gsk_old''\<rparr>"
  have old: "fst (create ?old ''gsk_old'' ''QQ=='') = Inl (AuthenticationError ''Error code: 401'')
      \<and> ''Error code: 401'' = str_of (AuthenticationError ''Error code: 401'')"
    and old1: "snd (create ?old ''gsk_old'' ''QQ=='') = 1"
    by (simp_all add: create_unrolled demo_env_fields demo_attempt_def)
  have net: "fst (create ?E ''gsk_live'' ''RA=='') = Inl (APIConnectionError ''Connection error.'')
      \<and> ''Connection error.'' = str_of (APIConnectionError ''Connection error.'')"
    and net3: "snd (create ?E ''gsk_live'' ''RA=='') = 3"
    by (simp_all add: demo_create)
  have bad: "fst (create ?E ''gsk_live'' ''Qw=='') = Inr ''I cannot read this label''
      \<and> json_loads ?E ''I cannot read this label'' = Inl ''Expecting value: line 1 column 1 (char 0)''"
    and bad1: "snd (create ?E ''gsk_live'' ''Qw=='') = 1"
    by (simp_all add: demo_create demo_env_fields demo_loads_def)
  have same: "auto_create E ''s1'' (sessions demo_server) = sessions demo_server" for E
    by (simp add: auto_create_def demo_sessions)
  have calls: "api_calls demo_server = 2"
    by (simp add: demo_server_def)
  have p1: "process_image ?old \<lparr>session_id = ''s1'', image_base64 = ''QQ==''\<rparr> demo_server
     = (\<lparr>success = False, data = None, error = Some ''Error code: 401'', scan_count = 0\<rparr>,
        \<lparr>sessions = sessions demo_server, api_calls = 3\<rparr>)"
    using vision_failure_surfaced [OF disjI1, OF old,
            of "\<lparr>session_id = ''s1'', image_base64 = ''QQ==''\<rparr>" demo_server]
    by (simp add: same calls old1)
  have p2: "process_image ?E \<lparr>session_id = ''s1'', image_base64 = ''RA==''\<rparr> demo_server
     = (\<lparr>success = False, data = None, error = Some ''Connection error.'', scan_count = 0\<rparr>,
        \<lparr>sessions = sessions demo_server, api_calls = 5\<rparr>)"
    using vision_failure_surfaced [OF disjI1, OF net,
            of "\<lparr>session_id = ''s1'', image_base64 = ''RA==''\<rparr>" demo_server]
    by (simp add: same calls net3 demo_env_fields)
  have p3: "process_image ?E \<lparr>session_id = ''s1'', image_base64 = ''Qw==''\<rparr> demo_server
     = (\<lparr>success = False, data = None,
         error = Some ''Expecting value: line 1 column 1 (char 0)'', scan_count = 0\<rparr>,
        \<lparr>sessions = sessions demo_server, api_calls = 3\<rparr>)"
    using vision_failure_surfaced [OF disjI2, OF bad,
            of "\<lparr>session_id = ''s1'', image_base64 = ''Qw==''\<rparr>" demo_server]
    by (simp add: same calls bad1 demo_env_fields)
  have t1: "process_vision_data ?old ''A'' 0 = (JObj [(''error'', JStr ''Error code: 401'')], 1)"
    using vision_failure_surfaced [OF disjI1, OF old, of _ _ "''A''" 0]
    by (simp add: old1 demo_b64)
  have t2: "process_vision_data ?E ''D'' 0 = (JObj [(''error'', JStr ''Connection error.'')], 3)"
    using vision_failure_surfaced [OF disjI1, OF net, of _ _ "''D''" 0]
    by (simp add: net3 demo_env_fields demo_b64)
  have t3: "process_vision_data ?E ''C'' 0
     = (JObj [(''error'', JStr ''Expecting value: line 1 column 1 (char 0)'')], 1)"
    using vision_failure_surfaced [OF disjI2, OF bad, of _ _ "''C''" 0]
    by (simp add: bad1 demo_env_fields demo_b64)
  from p1 p2 p3 t1 t2 t3 show ?thesis
    by (simp only: simp_thms)
qed

text \<open>
  C5. For an identifier the store does not hold, lookup and export each answer not found
  (status 404), and the store is as before: no session is created or changed.
\<close>

theorem missing_session_not_found:
  "sessions st sid = None \<Longrightarrow>
     get_session sid st = (Inl (HTTPException 404 ''Session not found''), st)
   \<and> export_session sid st = (Inl (HTTPException 404 ''Session not found''), st)"
  by (simp add: get_session_def export_session_def)

theorem missing_session_not_found_witness:
  "sessions demo_server ''s9'' = None
   \<and> get_session ''s9'' demo_server = (Inl (HTTPException 404 ''Session not found''), demo_server)
   \<and> export_session ''s9'' demo_server = (Inl (HTTPException 404 ''Session not found''), demo_server)"
  using missing_session_not_found [OF demo_sessions(3)] by (simp add: demo_sessions)

text \<open>
  C6. For an identifier the store does not hold, deleting the session leaves the store as
  it was and still answers with the success message and that identifier.
\<close>

theorem end_session_missing:
  "sessions st sid = None \<Longrightarrow>
     end_session sid st = ([(''message'', JStr ''Session ended''), (''session_id'', JStr sid)], st)"
  by (simp add: end_session_def)

theorem end_session_missing_witness:
  "sessions demo_server ''s9'' = None
   \<and> end_session ''s9'' demo_server =
       ([(''message'', JStr ''Session ended''), (''session_id'', JStr ''s9'')], demo_server)"
  using end_session_missing [OF demo_sessions(3)] by (simp add: demo_sessions)

text \<open>
  C7. The records of a session are in the order of the submissions, and lookup and export
  should both show them in that order. Here three submissions go to a new session, the
  second answered with a list for the brand: the session holds the three records in order
  and lookup returns them so, but export raises at the second record and shows none.
\<close>

theorem ordered_records_export_raises:
  "sessions (submit_all mixed_subs empty_server) ''s4''
     = Some \<lparr>items =
          [[(''capacity'', JStr ''8GB''), (''timestamp'', JStr ''2026-01-05 09:00:03'')],
           [(''brand'', JArr [JStr ''Kingston'', JStr ''HyperX'']),
            (''timestamp'', JStr ''2026-01-05 09:00:04'')],
           [(''timestamp'', JStr ''2026-01-05 09:00:05'')]],
         started_at = ''2026-01-05T09:00:00.000000''\<rparr>
   \<and> List.map_filter (stored_by ''s4'') mixed_subs
     = [[(''capacity'', JStr ''8GB''), (''timestamp'', JStr ''2026-01-05 09:00:03'')],
        [(''brand'', JArr [JStr ''Kingston'', JStr ''HyperX'']),
         (''timestamp'', JStr ''2026-01-05 09:00:04'')],
        [(''timestamp'', JStr ''2026-01-05 09:00:05'')]]
   \<and> fst (get_session ''s4'' (submit_all mixed_subs empty_server))
     = Inr \<lparr>view_session_id = ''s4'',
            view_items =
              [[(''capacity'', JStr ''8GB''), (''timestamp'', JStr ''2026-01-05 09:00:03'')],
               [(''brand'', JArr [JStr ''Kingston'', JStr ''HyperX'']),
                (''timestamp'', JStr ''2026-01-05 09:00:04'')],
               [(''timestamp'', JStr ''2026-01-05 09:00:05'')]],
            view_scan_count = 3,
            view_started_at = ''2026-01-05T09:00:00.000000''\<rparr>
   \<and> fst (export_session ''s4'' (submit_all mixed_subs empty_server))
     = Inl (PyException (ValueError (JArr [JStr ''Kingston'', JStr ''HyperX''])))"
proof -
  let ?its = "[[(''capacity'', JStr ''8GB''), (''timestamp'', JStr ''2026-01-05 09:00:03'')],
           [(''brand'', JArr [JStr ''Kingston'', JStr ''HyperX'']),
            (''timestamp'', JStr ''2026-01-05 09:00:04'')],
           [(''timestamp'', JStr ''2026-01-05 09:00:05'')]]"
  let ?s = "\<lparr>items = ?its, started_at = ''2026-01-05T09:00:00.000000''\<rparr>"
  let ?st = "submit_all mixed_subs empty_server"
  have run: "sessions ?st ''s4'' = Some ?s"
    by (simp add: mixed_subs_def empty_server_def process_image_sessions stored_record_def
        extract_hardware_info_def vision_call_def target_def demo_defs)
  have stored: "List.map_filter (stored_by ''s4'') mixed_subs = ?its"
    using session_items_submit_all [of mixed_subs empty_server "''s4''"] run
    by (simp add: session_items_def empty_server_def)
  have look: "fst (get_session ''s4'' ?st) =
      Inr \<lparr>view_session_id = ''s4'', view_items = ?its, view_scan_count = 3,
           view_started_at = ''2026-01-05T09:00:00.000000''\<rparr>"
    by (simp add: get_session_def run)
  have b: "bind_items 1 (items ?s) = Inl (ValueError (JArr [JStr ''Kingston'', JStr ''HyperX'']))"
    by (simp add: bind_simps)
  have "items ?s \<noteq> []" by simp
  from export_refused [OF run this b]
  have exp: "fst (export_session ''s4'' ?st) =
      Inl (PyException (ValueError (JArr [JStr ''Kingston'', JStr ''HyperX''])))"
    by simp
  from run stored look exp show ?thesis
    by (simp only: simp_thms)
qed

text \<open>
  C8. When the extraction fails, \<^verbatim>\<open>process_image\<close> answers \<^verbatim>\<open>success = False\<close> with no
  record and an error, and appends nothing: the session's records are as before, and a
  store that had the session is unchanged (one that had not has it now, with no record).
\<close>

theorem failed_extraction_appends_nothing:
  assumes "fst (extract_hardware_info E (image_base64 r) (api_calls st)) = Inl e"
  shows "success (fst (process_image E r st)) = False
       \<and> data (fst (process_image E r st)) = None
       \<and> error (fst (process_image E r st)) \<noteq> None
       \<and> sessions (snd (process_image E r st)) = auto_create E (session_id r) (sessions st)
       \<and> session_items (snd (process_image E r st)) (session_id r) = session_items st (session_id r)
       \<and> (\<forall>s. sessions st (session_id r) = Some s \<longrightarrow>
             sessions (snd (process_image E r st)) = sessions st)"
proof -
  obtain n where x: "extract_hardware_info E (image_base64 r) (api_calls st) = (Inl e, n)"
    using assms by (cases "extract_hardware_info E (image_base64 r) (api_calls st)") simp
  have resp: "process_image E r st =
      (failure e, \<lparr>sessions = auto_create E (session_id r) (sessions st), api_calls = n\<rparr>)"
    by (simp add: process_image_def Let_def x)
  show ?thesis
    by (cases e) (auto simp: resp session_items_def auto_create_def split: option.splits)
qed

theorem failed_extraction_appends_nothing_witness:
  "fst (extract_hardware_info (demo_env ''2026-01-05 09:00:03'') ''RA=='' 2)
     = Inl (HTTPException 500 ''Connection error.'')
   \<and> success (fst (process_image (demo_env ''2026-01-05 09:00:03'')
         \<lparr>session_id = ''s1'', image_base64 = ''RA==''\<rparr> demo_server)) = False
   \<and> sessions (snd (process_image (demo_env ''2026-01-05 09:00:03'')
         \<lparr>session_id = ''s1'', image_base64 = ''RA==''\<rparr> demo_server)) = sessions demo_server
   \<and> fst (extract_hardware_info ((demo_env ''2026-01-05 09:00:03'')\<lparr>GROQ_API_KEY := None\<rparr>) ''QQ=='' 2)
     = Inl (HTTPException 500 ''GROQ_API_KEY not configured'')
   \<and> success (fst (process_image ((demo_env ''2026-01-05 09:00:03'')\<lparr>GROQ_API_KEY := None\<rparr>)
         \<lparr>session_id = ''s9'', image_base64 = ''QQ==''\<rparr> demo_server)) = False
   \<and> sessions (snd (process_image ((demo_env ''2026-01-05 09:00:03'')\<lparr>GROQ_API_KEY := None\<rparr>)
         \<lparr>session_id = ''s9'', image_base64 = ''QQ==''\<rparr> demo_server)) ''s9''
     = Some \<lparr>items = [], started_at = ''2026-01-05T09:00:00.000000''\<rparr>"
proof -
  let ?E = "demo_env ''2026-01-05 09:00:03''"
  let ?r1 = "\<lparr>session_id = ''s1'', image_base64 = ''RA==''\<rparr>"
  let ?r9 = "\<lparr>session_id = ''s9'', image_base64 = ''QQ==''\<rparr>"
  have 1: "fst (extract_hardware_info ?E (image_base64 ?r1) (api_calls demo_server))
      = Inl (HTTPException 500 ''Connection error.'')"
    by (simp add: extract_hardware_info_def vision_call_def demo_defs)
  have 9: "fst (extract_hardware_info (?E\<lparr>GROQ_API_KEY := None\<rparr>) (image_base64 ?r9)
        (api_calls demo_server)) = Inl (HTTPException 500 ''GROQ_API_KEY not configured'')"
    by (simp add: extract_hardware_info_def demo_env_def)
  have n: "api_calls demo_server = 2" by (simp add: demo_server_def)
  have new: "auto_create (?E\<lparr>GROQ_API_KEY := None\<rparr>) ''s9'' (sessions demo_server) ''s9''
      = Some \<lparr>items = [], started_at = ''2026-01-05T09:00:00.000000''\<rparr>"
    by (simp add: auto_create_def demo_sessions demo_env_def)
  note A = failed_extraction_appends_nothing [OF 1]
  note B = failed_extraction_appends_nothing [OF 9]
  have a1: "success (fst (process_image ?E ?r1 demo_server)) = False"
    using A by blast
  have a2: "sessions (snd (process_image ?E ?r1 demo_server)) = sessions demo_server"
    using A demo_sessions(1) by auto
  have b1: "success (fst (process_image (?E\<lparr>GROQ_API_KEY := None\<rparr>) ?r9 demo_server)) = False"
    using B by blast
  have b2: "sessions (snd (process_image (?E\<lparr>GROQ_API_KEY := None\<rparr>) ?r9 demo_server)) ''s9''
      = Some \<lparr>items = [], started_at = ''2026-01-05T09:00:00.000000''\<rparr>"
    using B new by simp
  from 1 9 show ?thesis
    unfolding n by (simp only: a1 a2 b1 b2 ImageRequest.simps simp_thms)
qed

text \<open>
  C9. Submitting to, exporting, looking up or deleting the session \<open>sid\<close> leaves every
  session under another identifier as it was.
\<close>

theorem other_sessions_unchanged:
  "sid' \<noteq> sid \<Longrightarrow>
     sessions (snd (process_image E \<lparr>session_id = sid, image_base64 = img\<rparr> st)) sid' = sessions st sid'
   \<and> sessions (snd (export_session sid st)) sid' = sessions st sid'
   \<and> sessions (snd (get_session sid st)) sid' = sessions st sid'
   \<and> sessions (snd (end_session sid st)) sid' = sessions st sid'"
  by (simp add: process_image_sessions export_state get_session_def end_session_def
      split: option.splits)

theorem other_sessions_unchanged_witness:
  "''s1'' \<noteq> ''s0''
   \<and> sessions (snd (process_image (demo_env ''2026-01-05 09:00:03'')
         \<lparr>session_id = ''s0'', image_base64 = ''QQ==''\<rparr> demo_server)) ''s1'' = Some demo_session
   \<and> sessions (snd (export_session ''s0'' demo_server)) ''s1'' = Some demo_session
   \<and> sessions (snd (get_session ''s0'' demo_server)) ''s1'' = Some demo_session
   \<and> sessions (snd (end_session ''s0'' demo_server)) ''s1'' = Some demo_session"
  using other_sessions_unchanged [of "''s1''" "''s0''" "demo_env ''2026-01-05 09:00:03''" "''QQ==''" demo_server]
  by (simp add: demo_sessions)

text \<open>
  C10. After a successful submission, the \<^verbatim>\<open>scan_count\<close> of the response and the one that
  lookup returns are the number of the session's records, which is one more than before.
\<close>

theorem scan_count_is_length:
  assumes "process_image E r st = (resp, st')" and "success resp"
  shows "\<exists>s' v. sessions st' (session_id r) = Some s'
           \<and> scan_count resp = length (items s')
           \<and> get_session (session_id r) st' = (Inr v, st')
           \<and> view_scan_count v = length (items s')
           \<and> length (items s') = length (session_items st (session_id r)) + 1"
proof -
  obtain x n where x: "extract_hardware_info E (image_base64 r) (api_calls st) = (x, n)"
    by (cases "extract_hardware_info E (image_base64 r) (api_calls st)")
  let ?t = "target E (session_id r) (sessions st)"
  from assms x obtain d where
    st': "sessions st' = (sessions st)(session_id r \<mapsto> ?t\<lparr>items := items ?t @ [d]\<rparr>)"
    and cnt: "scan_count resp = length (items ?t) + 1"
    by (cases x)
      (auto simp: process_image_def Let_def auto_create_eq append_item_def scan_count_of_def
        failure_fields split: sum.splits)
  have "length (items ?t) = length (session_items st (session_id r))"
    by (simp add: target_def session_items_def split: option.splits)
  then show ?thesis
    by (simp add: st' cnt get_session_def)
qed

theorem scan_count_is_length_witness:
  "process_image (demo_env ''2026-01-05 09:00:03'') \<lparr>session_id = ''s1'', image_base64 = ''QQ==''\<rparr> demo_server
   = (\<lparr>success = True,
       data = Some \<lparr>capacity = ''8GB'', generation = ''N/A'', brand = ''N/A'', speed = ''N/A'',
                   timestamp = Some ''2026-01-05 09:00:03''\<rparr>,
       error = None, scan_count = 3\<rparr>,
      \<lparr>sessions = (sessions demo_server)(''s1'' \<mapsto> demo_session\<lparr>items := items demo_session @
          [[(''capacity'', JStr ''8GB''), (''timestamp'', JStr ''2026-01-05 09:00:03'')]]\<rparr>),
       api_calls = 3\<rparr>)
   \<and> length (session_items demo_server ''s1'') = 2
   \<and> (\<exists>v. fst (get_session ''s1'' (snd (process_image (demo_env ''2026-01-05 09:00:03'')
              \<lparr>session_id = ''s1'', image_base64 = ''QQ==''\<rparr> demo_server))) = Inr v
          \<and> view_scan_count v = 3)"
proof -
  let ?E = "demo_env ''2026-01-05 09:00:03''"
  let ?r = "\<lparr>session_id = ''s1'', image_base64 = ''QQ==''\<rparr>"
  let ?resp = "\<lparr>success = True,
       data = Some \<lparr>capacity = ''8GB'', generation = ''N/A'', brand = ''N/A'', speed = ''N/A'',
                   timestamp = Some ''2026-01-05 09:00:03''\<rparr>,
       error = None, scan_count = 3\<rparr>"
  let ?st = "\<lparr>sessions = (sessions demo_server)(''s1'' \<mapsto> demo_session\<lparr>items := items demo_session @
          [[(''capacity'', JStr ''8GB''), (''timestamp'', JStr ''2026-01-05 09:00:03'')]]\<rparr>),
       api_calls = 3\<rparr>"
  have run: "process_image ?E ?r demo_server = (?resp, ?st)"
    by (simp add: code_defs demo_defs Let_def numeral_3_eq_3)
  have ok: "success ?resp" by simp
  have len: "length (session_items demo_server ''s1'') = 2"
    by (simp add: session_items_def demo_sessions demo_session_def)
  show ?thesis
    using scan_count_is_length [OF run ok] run len by auto
qed

end
